theory Spec2Isabelle
  imports Main
begin

section \<open>The adapter of src/src/adapter.ts\<close>

text \<open>
  The theory embeds the class \<open>Adapter\<close> of \<^verbatim>\<open>src/src/adapter.ts\<close>: the two line
  translators, \<open>logVariableStatus\<close>, \<open>parseVariableValue\<close>, \<open>processRequest\<close> and
  \<open>loadSnapshot\<close> with its local functions \<open>getObjectId\<close>, \<open>parseVariable\<close> and
  \<open>parseVariableList\<close>.

  JavaScript strings are \<open>string\<close>; an optional property is an \<open>option\<close> (\<open>None\<close> is
  \<open>undefined\<close>). Line numbers are integers held in JavaScript numbers: they are \<open>int\<close>,
  and what the adapter computes from them is rounded as a double is. Indices of the
  variable table are positions in an array, \<open>nat\<close>. Every \<open>throw\<close> is a value of \<open>error\<close>, one
  constructor for each place that throws. A function that changes the adapter takes it
  and returns it with its result. What the adapter calls outside the repository is a
  parameter: the Stackdriver client (\<open>debugProxy\<close>) and the functions of the platform
  (\<open>host\<close>).
\<close>

subsection \<open>Errors\<close>

datatype error =
    InvalidLineNumber int
      \<comment> \<open>\<open>Given Stackdriver line number ... is not possible.\<close>\<close>
  | UnexpectedStatusFormat
      \<comment> \<open>\<open>The following variable ... has an unexpected format\<close>\<close>
  | TypeError string
      \<comment> \<open>reading the named property of \<open>undefined\<close>\<close>
  | MissingUrl
      \<comment> \<open>\<open>The setBreakpointByUrl request ... should specify the `url` property.\<close>\<close>
  | NotSupported string
      \<comment> \<open>\<open>The `...` request from Chrome DevTools is not supported\<close>\<close>
  | UnrecognizedDebuggerMethod "string option"
  | UnrecognizedRuntimeMethod "string option"
  | ObjectNotFound "string option"
      \<comment> \<open>\<open>The remote object with ID ... does not exist in the internal object property map.\<close>\<close>
  | NotCapturedSnapshot
      \<comment> \<open>\<open>The following breakpoint ... is not a captured snapshot\<close>\<close>
  | VariableHasTypeOrMembers
      \<comment> \<open>\<open>should not have the `type` nor `members` properties\<close>\<close>
  | VariableHasValueAndIndex
      \<comment> \<open>\<open>should not have the `value` property, because it already specifies ...\<close>\<close>
  | VariableWithoutName
      \<comment> \<open>\<open>should have the `name` property\<close>\<close>
  | EntryHasNameTypeOrIndex
      \<comment> \<open>first pass: \<open>should not have the `name`, `type`, nor `varTableIndex` properties\<close>\<close>
  | ArrayWithoutLength
      \<comment> \<open>\<open>The following array variable ... does not have the `length` property\<close>\<close>
  | ErrorWithoutStack
      \<comment> \<open>\<open>The following error variable ... does not have the `stack` property\<close>\<close>
  | UnexpectedValue
      \<comment> \<open>\<open>The following variable ... has an unexpected value\<close>\<close>
  | EntryHasTypeOrIndex
      \<comment> \<open>second pass: \<open>should not itself have the `type` nor `varTableIndex` properties\<close>\<close>
  | FrameHasArguments
      \<comment> \<open>\<open>The following stack frame from Stackdriver Debug has arguments\<close>\<close>
  | Rejected string
      \<comment> \<open>a rejection of the Stackdriver client or of the file system\<close>

text \<open>
  The errors \<open>loadSnapshot\<close> throws itself because the snapshot does not have the shape
  it expects. A \<open>TypeError\<close> and a rejection of the client are not among them.
\<close>

fun dataShapeError :: "error \<Rightarrow> bool" where
  "dataShapeError (InvalidLineNumber n) = True"
| "dataShapeError UnexpectedStatusFormat = True"
| "dataShapeError NotCapturedSnapshot = True"
| "dataShapeError VariableHasTypeOrMembers = True"
| "dataShapeError VariableHasValueAndIndex = True"
| "dataShapeError VariableWithoutName = True"
| "dataShapeError EntryHasNameTypeOrIndex = True"
| "dataShapeError ArrayWithoutLength = True"
| "dataShapeError ErrorWithoutStack = True"
| "dataShapeError UnexpectedValue = True"
| "dataShapeError EntryHasTypeOrIndex = True"
| "dataShapeError FrameHasArguments = True"
| "dataShapeError e = False"

subsection \<open>Line numbers\<close>

text \<open>
  A JavaScript number is an IEEE double: \<open>line + 1\<close> and \<open>line - 1\<close> are the exact sum
  and difference rounded to the nearest double, to the one with the even significand
  when two are equally near. An integer is a double when it has at most 53 significant
  bits. \<open>exponent\<close> counts the bits of a magnitude beyond 53, and \<open>roundMagnitude\<close>
  rounds these bits away; \<open>toDouble\<close> is the rounding of an integer. The integers the adapter
  is given are doubles, so they and their neighbours are below the largest double and
  the rounding never overflows.
\<close>

function exponent :: "int \<Rightarrow> nat" where
  "exponent m = (if m < 2 ^ 53 then 0 else Suc (exponent (m div 2)))"
  by pat_completeness auto
termination
  by (relation "measure nat") auto

declare exponent.simps [simp del]

definition roundMagnitude :: "int \<Rightarrow> int" where
  "roundMagnitude m =
     (let e = exponent m; q = m div 2 ^ e; r = m mod 2 ^ e
      in if 2 ^ e < 2 * r \<or> (2 * r = 2 ^ e \<and> odd q) then (q + 1) * 2 ^ e else q * 2 ^ e)"

definition toDouble :: "int \<Rightarrow> int" where
  "toDouble i = (if i < 0 then - roundMagnitude (- i) else roundMagnitude i)"

definition devToolsToStackdriverLine :: "int \<Rightarrow> int" where
  "devToolsToStackdriverLine line = toDouble (line + 1)"

definition stackdriverToDevToolsLine :: "int \<Rightarrow> error + int" where
  "stackdriverToDevToolsLine line =
     (if line < 1 then Inl (InvalidLineNumber line) else Inr (toDouble (line - 1)))"

subsection \<open>Numbers in template strings\<close>

text \<open>
  \<open>`${index}`\<close> of a non-negative integer below \<open>10 ^ 21\<close> is its decimal numeral, and
  of a negative one the numeral after a minus sign.
\<close>

definition digit :: "nat \<Rightarrow> char" where
  "digit d = ''0123456789'' ! d"

fun string_of_nat :: "nat \<Rightarrow> string" where
  "string_of_nat n =
     (if n < 10 then [digit n] else string_of_nat (n div 10) @ [digit (n mod 10)])"

declare string_of_nat.simps [simp del]

definition string_of_int :: "int \<Rightarrow> string" where
  "string_of_int i = (if i < 0 then CHR ''-'' # string_of_nat (nat (- i)) else string_of_nat (nat i))"

text \<open>Reading a decimal numeral back; it is used in proofs only.\<close>

definition digit_value :: "char \<Rightarrow> nat" where
  "digit_value c = of_char c - 48"

definition nat_of_string :: "string \<Rightarrow> nat" where
  "nat_of_string s = foldl (\<lambda>a c. 10 * a + digit_value c) 0 s"

subsection \<open>Strings and truthiness\<close>

definition startsWith :: "string \<Rightarrow> string \<Rightarrow> bool" where
  "startsWith s p = (take (length p) s = p)"

definition endsWith :: "string \<Rightarrow> string \<Rightarrow> bool" where
  "endsWith s p = (length p \<le> length s \<and> drop (length s - length p) s = p)"

definition substr :: "string \<Rightarrow> nat \<Rightarrow> nat \<Rightarrow> string" where
  "substr s start n = take n (drop start s)"

text \<open>\<open>s.split(c)\<close> for a separator of one character: all the pieces, in order.\<close>

fun split :: "char \<Rightarrow> string \<Rightarrow> string list" where
  "split c [] = [[]]"
| "split c (x # xs) =
     (if x = c then [] # split c xs
      else (case split c xs of [] \<Rightarrow> [[x]] | p # ps \<Rightarrow> (x # p) # ps))"

text \<open>
  A string property is truthy when it is present and not empty, a number property when
  it is present and not zero; arrays and objects are truthy whenever they are present.
\<close>

definition truthy :: "string option \<Rightarrow> bool" where
  "truthy s = (case s of None \<Rightarrow> False | Some x \<Rightarrow> x \<noteq> [])"

definition truthyNumber :: "nat option \<Rightarrow> bool" where
  "truthyNumber k = (case k of None \<Rightarrow> False | Some n \<Rightarrow> n \<noteq> 0)"

subsection \<open>Data of the Stackdriver client\<close>

record formatMessage =
  fm_format :: "string option"

record statusMessage =
  st_isError :: "bool option"
  st_refersTo :: "string option"
  st_description :: "formatMessage option"

datatype variable =
  Variable (v_name: "string option") (v_value: "string option") (v_type: "string option")
    (v_varTableIndex: "nat option") (v_members: "variable list option")
    (v_status: "statusMessage option")

record sourceLocation =
  sl_path :: string
  sl_line :: int

record stackFrame =
  sf_function :: string
  sf_location :: sourceLocation
  sf_locals :: "variable list option"
  sf_arguments :: "variable list option"

text \<open>Of a breakpoint, the properties the adapter reads.\<close>

record breakpoint =
  bp_id :: string
  bp_location :: sourceLocation
  bp_isFinalState :: "bool option"
  bp_stackFrames :: "stackFrame list option"
  bp_variableTable :: "variable list option"

datatype action = CAPTURE | LOG

text \<open>
  The argument of the client's \<open>setBreakpoint\<close>. Its line is
  \<open>devToolsToStackdriverLine\<close> of the request's \<open>lineNumber\<close>; of a request without a
  \<open>lineNumber\<close> that is \<open>NaN\<close>, here \<open>None\<close>.
\<close>

record breakpointRequest =
  br_action :: action
  br_path :: string
  br_line :: "int option"
  br_condition :: "string option"

text \<open>
  The client is not part of the repository: \<open>debugProxy\<close> holds what it answers. A
  promise that rejects is \<open>Inl\<close>.
\<close>

record debugProxy =
  getDebuggerId :: string
  sourceDirectory :: string
  getBreakpoint :: "string \<Rightarrow> error + breakpoint"
  setBreakpoint :: "breakpointRequest \<Rightarrow> error + breakpoint"
  removeBreakpoint :: "string option \<Rightarrow> error + unit"
  getBreakpointList :: "bool \<Rightarrow> breakpoint list"

text \<open>
  What the adapter uses of the JavaScript platform: \<open>String.prototype.toLowerCase\<close>;
  whether \<open>Number(value)\<close> is a number (not \<open>NaN\<close>); the test of the date branch, which
  gives \<open>new Date(ms).toString()\<close> when \<open>Date.parse(value)\<close> is a number \<open>ms\<close> and
  \<open>new Date(ms).toISOString()\<close> is \<open>value\<close> again; \<open>path.resolve\<close>; and reading a file.
\<close>

record host =
  toLowerCase :: "string \<Rightarrow> string"
  isNumber :: "string \<Rightarrow> bool"
  isoDate :: "string \<Rightarrow> string option"
  pathResolve :: "string \<Rightarrow> string \<Rightarrow> string"
  readFile :: "string option \<Rightarrow> error + string"

subsection \<open>Data of the Chrome DevTools Protocol\<close>

datatype jsvalue =
    JSNull
  | JSBoolean bool
  | JSNumber string  \<comment> \<open>\<open>Number(s)\<close> of a string \<open>s\<close> with \<open>isNumber\<close>\<close>
  | JSString string

record remoteObject =
  ro_type :: string
  ro_subtype :: "string option"
  ro_className :: "string option"
  ro_description :: "string option"
  ro_objectId :: "string option"
  ro_value :: "jsvalue option"
  ro_unserializableValue :: "string option"

definition remoteObjectOfType :: "string \<Rightarrow> remoteObject" where
  "remoteObjectOfType t =
     \<lparr>ro_type = t, ro_subtype = None, ro_className = None, ro_description = None,
      ro_objectId = None, ro_value = None, ro_unserializableValue = None\<rparr>"

record propertyDescriptor =
  pd_name :: string
  pd_value :: "remoteObject option"
  pd_configurable :: bool
  pd_enumerable :: bool

record location =
  scriptId :: string
  lineNumber :: int
  columnNumber :: "int option"

record scope =
  scope_type :: string
  scope_object :: remoteObject

record callFrame =
  callFrameId :: string
  functionName :: string
  cf_location :: location
  scopeChain :: "scope list"
  cf_this :: remoteObject

record pausedEvent =
  reason :: string
  hitBreakpoints :: "string list"
  callFrames :: "callFrame list"

text \<open>Of the parameters of a request, the properties the adapter reads.\<close>

record params =
  p_url :: "string option"
  p_lineNumber :: "int option"
  p_condition :: "string option"
  p_objectId :: "string option"
  p_breakpointId :: "string option"
  p_scriptId :: "string option"

record messageRequest =
  rq_id :: int
  rq_method :: string
  rq_params :: "params option"

datatype processedResponse =
    EmptyResponse
  | EnableResponse string
  | ScriptSourceResponse string
  | SetBreakpointByUrlResponse string "location list"
  | GetPropertiesResponse "propertyDescriptor list"

subsection \<open>The adapter\<close>

record breakpointInfo =
  info_name :: string
  info_id :: string

datatype emitted =
    Resume
  | LoadSnapshot string
  | UpdateBreakpointList "breakpointInfo list" "breakpointInfo list"

datatype level = Silly | Verbose | Info

datatype message =
    ErrorInVariable "string option" string
      \<comment> \<open>\<open>Error in variable '<name>' from Stackdriver Debug, status message: <format>\<close>\<close>
  | StatusMessage variable
      \<comment> \<open>\<open>Status message: <the variable>\<close>\<close>

text \<open>
  The state of an adapter: its client, what it has written to its logger (level, origin,
  message), its map of property descriptor lists, and the events it has emitted.
\<close>

record adapter =
  debugProxy :: debugProxy
  logger :: "(level \<times> string \<times> message) list"
  propertyDescriptorListMap :: "string \<rightharpoonup> propertyDescriptor list"
  emitted :: "emitted list"

definition REMOTE_OBJECT_SUBTYPE_SET :: "string set" where
  "REMOTE_OBJECT_SUBTYPE_SET =
     {''array'', ''null'', ''node'', ''regexp'', ''date'', ''map'', ''set'', ''weakmap'',
      ''weakset'', ''iterator'', ''generator'', ''error'', ''proxy'', ''promise'',
      ''typedarray''}"

definition TYPED_ARRAY_SET :: "string set" where
  "TYPED_ARRAY_SET =
     {''Int8Array'', ''Uint8Array'', ''Uint8ClampedArray'', ''Int16Array'', ''Uint16Array'',
      ''Int32Array'', ''Uint32Array'', ''Float32Array'', ''Float64Array''}"

definition STATUS_MESSAGE_SET :: "string set" where
  "STATUS_MESSAGE_SET = {''baseUrl'', ''_pendingEncoding'', ''search'', ''_trailer'', ''_url''}"

definition breakpointToBreakpointInfo :: "breakpoint \<Rightarrow> breakpointInfo" where
  "breakpointToBreakpointInfo breakpoint =
     \<lparr>info_name = sl_path (bp_location breakpoint) @ '':'' @
        string_of_int (sl_line (bp_location breakpoint)),
      info_id = bp_id breakpoint\<rparr>"

definition nonNull :: "'a option \<Rightarrow> bool" where
  "nonNull v = (v \<noteq> None)"

subsection \<open>logVariableStatus\<close>

text \<open>
  The logger is a property of the adapter: \<open>this.logger.silly(...)\<close> reads it from
  \<open>this\<close>. The first argument of \<open>writeLog\<close> and of \<open>logVariableStatus\<close> is the \<open>this\<close> of
  the call: \<open>Some\<close> adapter for a call \<open>this.logVariableStatus(variable)\<close>, and \<open>None\<close>
  (\<open>undefined\<close>, the body of a class being strict code) for a call of the function
  read off the adapter beforehand, \<open>const logVariableStatus = this.logVariableStatus\<close> and
  then \<open>logVariableStatus(variable)\<close>, as \<open>parseVariable\<close> calls it.
\<close>

definition writeLog ::
  "adapter option \<Rightarrow> level \<Rightarrow> string \<Rightarrow> message \<Rightarrow> error + adapter" where
  "writeLog this lvl origin msg =
     (case this of
        None \<Rightarrow> Inl (TypeError ''logger'')
      | Some a \<Rightarrow> Inr (a\<lparr>logger := logger a @ [(lvl, origin, msg)]\<rparr>))"

definition logVariableStatus :: "adapter option \<Rightarrow> variable \<Rightarrow> error + adapter" where
  "logVariableStatus this variable =
     (case v_status variable of
        Some status \<Rightarrow>
          (case st_description status of
             Some description \<Rightarrow>
               if \<not> truthyNumber (v_varTableIndex variable) \<and> st_isError status = Some True \<and>
                  st_refersTo status = Some ''VARIABLE_VALUE'' \<and> truthy (fm_format description)
               then writeLog this Silly ''adapter-parse''
                      (ErrorInVariable (v_name variable) (the (fm_format description)))
               else Inl UnexpectedStatusFormat
           | None \<Rightarrow> Inl UnexpectedStatusFormat)
      | None \<Rightarrow>
          if truthy (v_name variable) \<and> the (v_name variable) \<in> STATUS_MESSAGE_SET
          then writeLog this Silly ''adapter-parse'' (StatusMessage variable)
          else writeLog this Info ''adapter-parse'' (StatusMessage variable))"

subsection \<open>parseVariableValue\<close>

definition parseVariableValue :: "host \<Rightarrow> string \<Rightarrow> remoteObject" where
  "parseVariableValue h v =
     (if v = ''undefined'' then remoteObjectOfType ''undefined''
      else if v = ''null'' then
        (remoteObjectOfType ''object'')\<lparr>ro_subtype := Some ''null'', ro_value := Some JSNull\<rparr>
      else if v = ''true'' then
        (remoteObjectOfType ''boolean'')\<lparr>ro_value := Some (JSBoolean True)\<rparr>
      else if v = ''false'' then
        (remoteObjectOfType ''boolean'')\<lparr>ro_value := Some (JSBoolean False)\<rparr>
      else if v = ''NaN'' \<or> v = ''Infinity'' \<or> v = ''-Infinity'' then
        (remoteObjectOfType ''number'')
          \<lparr>ro_description := Some v, ro_unserializableValue := Some v\<rparr>
      else if startsWith v ''Symbol('' \<and> endsWith v '')'' then
        (remoteObjectOfType ''symbol'')\<lparr>ro_description := Some v\<rparr>
      else if startsWith v ''function '' \<and> endsWith v ''()'' then
        (remoteObjectOfType ''function'')
          \<lparr>ro_className := Some ''Function'', ro_description := Some (v @ ''{}'')\<rparr>
      else if startsWith v ''/'' \<and> endsWith v ''/'' then
        (remoteObjectOfType ''object'')
          \<lparr>ro_subtype := Some ''regexp'', ro_className := Some ''RegExp'',
           ro_description := Some v\<rparr>
      else if isNumber h v then
        (remoteObjectOfType ''number'')
          \<lparr>ro_description := Some v, ro_value := Some (JSNumber v)\<rparr>
      else (remoteObjectOfType ''string'')\<lparr>ro_value := Some (JSString v)\<rparr>)"

subsection \<open>processRequest\<close>

definition emitUpdateBreakpointList :: "adapter \<Rightarrow> adapter" where
  "emitUpdateBreakpointList a =
     a\<lparr>emitted := emitted a @
        [UpdateBreakpointList
           (map breakpointToBreakpointInfo (getBreakpointList (debugProxy a) False))
           (map breakpointToBreakpointInfo (getBreakpointList (debugProxy a) True))]\<rparr>"

text \<open>The groups of \<open>case\<close> labels that share one body, in the order of the source.\<close>

definition debuggerUnsupported :: "string list" where
  "debuggerUnsupported =
     [''continueToLocation'', ''evaluateOnCallFrame'', ''restartFrame'',
      ''scheduleStepIntoAsync'', ''setReturnValue'', ''setScriptSource'',
      ''setVariableValue'', ''stepInto'', ''stepOut'', ''stepOver'']"

definition debuggerNoEffect :: "string list" where
  "debuggerNoEffect =
     [''disable'', ''pause'', ''pauseOnAsyncCall'', ''setAsyncCallStackDepth'',
      ''setBlackboxedRanges'', ''setBlackboxPatterns'', ''setBreakpointsActive'',
      ''setPauseOnExceptions'', ''setSkipAllPauses'']"

definition debuggerUnimplemented :: "string list" where
  "debuggerUnimplemented =
     [''getPossibleBreakpoints'', ''getStackTrace'', ''searchInContent'', ''setBreakpoint'',
      ''setBreakpointOnFunctionCall'']"

definition runtimeUnsupported :: "string list" where
  "runtimeUnsupported =
     [''addBinding'', ''awaitPromise'', ''callFunctionOn'', ''compileScript'', ''evaluate'',
      ''getIsolateId'', ''getHeapUsage'', ''globalLexicalScopeNames'', ''queryObjects'',
      ''removeBinding'', ''runScript'', ''terminateExecution'']"

definition runtimeNoEffect :: "string list" where
  "runtimeNoEffect =
     [''disable'', ''discardConsoleEntries'', ''enable'', ''releaseObject'',
      ''releaseObjectGroup'', ''runIfWaitingForDebugger'', ''setAsyncCallStackDepth'',
      ''setCustomObjectFormatterEnabled'', ''setMaxCallStackSizeToCapture'']"

text \<open>
  \<open>request.method.split('.', 2)\<close> keeps the first two pieces; the second is \<open>undefined\<close>
  when the string has no dot. Reading a property of \<open>request.params\<close> when the request
  has no \<open>params\<close> is a \<open>TypeError\<close>. The result is paired with the adapter after the
  call, also when the call throws.
\<close>

definition debuggerRequest ::
  "host \<Rightarrow> adapter \<Rightarrow> messageRequest \<Rightarrow> string option \<Rightarrow> (error + processedResponse) \<times> adapter"
  where
  "debuggerRequest h a request debuggerMethod =
     (if debuggerMethod = Some ''enable'' then
        (Inr (EnableResponse (getDebuggerId (debugProxy a))), a)
      else if debuggerMethod = Some ''getScriptSource'' then
        (case rq_params request of
           None \<Rightarrow> (Inl (TypeError ''scriptId''), a)
         | Some getScriptSourceRequest \<Rightarrow>
             (case readFile h (p_scriptId getScriptSourceRequest) of
                Inl e \<Rightarrow> (Inl e, a)
              | Inr scriptSource \<Rightarrow> (Inr (ScriptSourceResponse scriptSource), a)))
      else if debuggerMethod = Some ''removeBreakpoint'' then
        (case rq_params request of
           None \<Rightarrow> (Inl (TypeError ''breakpointId''), a)
         | Some removeBreakpointRequest \<Rightarrow>
             (case removeBreakpoint (debugProxy a) (p_breakpointId removeBreakpointRequest) of
                Inl e \<Rightarrow> (Inl e, a)
              | Inr _ \<Rightarrow> (Inr EmptyResponse, a)))
      else if debuggerMethod = Some ''resume'' then
        (Inr EmptyResponse, a\<lparr>emitted := emitted a @ [Resume]\<rparr>)
      else if debuggerMethod = Some ''setBreakpointByUrl'' then
        (case rq_params request of
           None \<Rightarrow> (Inl (TypeError ''url''), a)
         | Some setBreakpointByUrlRequest \<Rightarrow>
             if \<not> truthy (p_url setBreakpointByUrlRequest) then (Inl MissingUrl, a)
             else
               (case setBreakpoint (debugProxy a)
                       \<lparr>br_action = CAPTURE,
                        br_path = the (p_url setBreakpointByUrlRequest),
                        br_line = map_option devToolsToStackdriverLine
                                    (p_lineNumber setBreakpointByUrlRequest),
                        br_condition = p_condition setBreakpointByUrlRequest\<rparr> of
                  Inl e \<Rightarrow> (Inl e, a)
                | Inr breakpoint \<Rightarrow>
                    (case stackdriverToDevToolsLine (sl_line (bp_location breakpoint)) of
                       Inl e \<Rightarrow> (Inl e, emitUpdateBreakpointList a)
                     | Inr line \<Rightarrow>
                         (Inr (SetBreakpointByUrlResponse (bp_id breakpoint)
                                 [\<lparr>scriptId = sl_path (bp_location breakpoint),
                                   lineNumber = line, columnNumber = Some 0\<rparr>]),
                          emitUpdateBreakpointList a))))
      else if debuggerMethod \<in> Some ` set debuggerUnsupported then
        (Inl (NotSupported (rq_method request)), a)
      else if debuggerMethod \<in> Some ` set debuggerNoEffect then (Inr EmptyResponse, a)
      else if debuggerMethod \<in> Some ` set debuggerUnimplemented then (Inr EmptyResponse, a)
      else (Inl (UnrecognizedDebuggerMethod debuggerMethod), a))"

definition runtimeRequest ::
  "adapter \<Rightarrow> messageRequest \<Rightarrow> string option \<Rightarrow> (error + processedResponse) \<times> adapter"
  where
  "runtimeRequest a request runtimeMethod =
     (if runtimeMethod = Some ''getProperties'' then
        (case rq_params request of
           None \<Rightarrow> (Inl (TypeError ''objectId''), a)
         | Some getPropertiesRequest \<Rightarrow>
             (case Option.bind (p_objectId getPropertiesRequest)
                     (propertyDescriptorListMap a) of
                None \<Rightarrow> (Inl (ObjectNotFound (p_objectId getPropertiesRequest)), a)
              | Some propertyDescriptorList \<Rightarrow>
                  (Inr (GetPropertiesResponse propertyDescriptorList), a)))
      else if runtimeMethod \<in> Some ` set runtimeUnsupported then
        (Inl (NotSupported (rq_method request)), a)
      else if runtimeMethod \<in> Some ` set runtimeNoEffect then (Inr EmptyResponse, a)
      else (Inl (UnrecognizedRuntimeMethod runtimeMethod), a))"

definition processRequest ::
  "host \<Rightarrow> adapter \<Rightarrow> messageRequest \<Rightarrow> (error + processedResponse) \<times> adapter" where
  "processRequest h a request =
     (let pieces = take 2 (split CHR ''.'' (rq_method request));
          domain = hd pieces;
          method = (if 1 < length pieces then Some (pieces ! 1) else None)
      in if domain = ''Debugger'' then debuggerRequest h a request method
         else if domain = ''Runtime'' then runtimeRequest a request method
         else (Inr EmptyResponse, a))"

subsection \<open>loadSnapshot\<close>

definition getObjectId :: "string \<Rightarrow> nat \<Rightarrow> string" where
  "getObjectId snapshotId varTableIndex = snapshotId @ ''-object-'' @ string_of_nat varTableIndex"

text \<open>
  The other identifiers are constants of the loop bodies: \<open>emptyObjectId\<close> in the first
  pass, \<open>scopeId\<close> in the function mapped over the stack frames.
\<close>

definition emptyObjectId :: "string \<Rightarrow> nat \<Rightarrow> string" where
  "emptyObjectId snapshotId index = snapshotId @ ''-empty-'' @ string_of_nat index"

definition scopeId :: "string \<Rightarrow> nat \<Rightarrow> string" where
  "scopeId snapshotId index = snapshotId @ ''-scope-'' @ string_of_nat index"

text \<open>
  \<open>list.map(f)\<close> for an \<open>f\<close> that may throw: the elements in order, up to the first
  that throws.
\<close>

fun mapThrowing :: "('a \<Rightarrow> error + 'b) \<Rightarrow> 'a list \<Rightarrow> error + 'b list" where
  "mapThrowing f [] = Inr []"
| "mapThrowing f (x # xs) =
     (case f x of
        Inl e \<Rightarrow> Inl e
      | Inr y \<Rightarrow> (case mapThrowing f xs of Inl e \<Rightarrow> Inl e | Inr ys \<Rightarrow> Inr (y # ys)))"

text \<open>
  \<open>parseVariable\<close> reads the map \<open>varTableIndexToRemoteObjectMap\<close> of the enclosing call,
  here its second argument. It calls \<open>logVariableStatus\<close> as a plain function, so with
  no \<open>this\<close>.
\<close>

definition parseVariable ::
  "host \<Rightarrow> (nat \<rightharpoonup> remoteObject) \<Rightarrow> variable \<Rightarrow> error + propertyDescriptor option" where
  "parseVariable h varTableIndexToRemoteObjectMap variable =
     (if truthy (v_type variable) \<or> v_members variable \<noteq> None then Inl VariableHasTypeOrMembers
      else if truthy (v_value variable) \<and> truthyNumber (v_varTableIndex variable)
      then Inl VariableHasValueAndIndex
      else if truthy (v_value variable) \<or> truthyNumber (v_varTableIndex variable) then
        (if \<not> truthy (v_name variable) then Inl VariableWithoutName
         else Inr (Some
           \<lparr>pd_name = the (v_name variable),
            pd_value =
              (if truthy (v_value variable)
               then Some (parseVariableValue h (the (v_value variable)))
               else varTableIndexToRemoteObjectMap (the (v_varTableIndex variable))),
            pd_configurable = False, pd_enumerable = True\<rparr>))
      else
        (case logVariableStatus None variable of
           Inl e \<Rightarrow> Inl e
         | Inr _ \<Rightarrow> Inr None))"

definition parseVariableList ::
  "host \<Rightarrow> (nat \<rightharpoonup> remoteObject) \<Rightarrow> variable list \<Rightarrow> error + propertyDescriptor list" where
  "parseVariableList h varTableIndexToRemoteObjectMap list =
     map_sum id (\<lambda>ps. map the (filter nonNull ps))
       (mapThrowing (parseVariable h varTableIndexToRemoteObjectMap) list)"

text \<open>
  The first pass gives an entry with a value its class name, subtype and description
  (lines 546 to 608 of the source), in this order.
\<close>

definition classifyValue :: "host \<Rightarrow> variable \<Rightarrow> error + string \<times> string option \<times> string" where
  "classifyValue h variable =
     (let v = the (v_value variable) in
      if startsWith v ''#<'' \<and> endsWith v ''>'' then
        (let className = substr v 2 (length v - 3) in
         if toLowerCase h className \<in> REMOTE_OBJECT_SUBTYPE_SET then
           (if toLowerCase h className = ''array'' then
              (case Option.bind (v_members variable)
                      (find (\<lambda>member. v_name member = Some ''length'')) of
                 None \<Rightarrow> Inl ArrayWithoutLength
               | Some member \<Rightarrow>
                   Inr (className, Some ''array'',
                        ''Array('' @ (case v_value member of None \<Rightarrow> ''undefined'' | Some n \<Rightarrow> n)
                          @ '')''))
            else Inr (className, Some (toLowerCase h className), className))
         else Inr (className,
                   if className \<in> TYPED_ARRAY_SET then Some ''typedarray'' else None,
                   className))
      else if startsWith v ''Error'' then
        (case v_members variable of
           None \<Rightarrow> Inl ErrorWithoutStack
         | Some members \<Rightarrow>
             (case find (\<lambda>member. v_name member = Some ''stack'' \<and> truthy (v_value member))
                     members of
                None \<Rightarrow> Inr (''Error'', Some ''error'', ''Error'')
              | Some member \<Rightarrow> Inr (''Error'', Some ''error'', the (v_value member))))
      else
        (case isoDate h v of
           None \<Rightarrow> Inl UnexpectedValue
         | Some description \<Rightarrow> Inr (''Date'', Some ''date'', description)))"

text \<open>The body of the first \<open>forEach\<close> over the variable table.\<close>

definition firstPassEntry ::
  "host \<Rightarrow> string \<Rightarrow> variable \<Rightarrow> nat \<Rightarrow> (nat \<rightharpoonup> remoteObject) \<Rightarrow> adapter \<Rightarrow>
     (error + (nat \<rightharpoonup> remoteObject)) \<times> adapter" where
  "firstPassEntry h snapshotId variable index m a =
     (if truthy (v_name variable) \<or> truthy (v_type variable) \<or>
         truthyNumber (v_varTableIndex variable)
      then (Inl EntryHasNameTypeOrIndex, a)
      else if truthy (v_value variable) then
        (case classifyValue h variable of
           Inl e \<Rightarrow> (Inl e, a)
         | Inr (className, subtype, description) \<Rightarrow>
             (let objectId =
                    (if v_members variable \<noteq> None then Some (getObjectId snapshotId index)
                     else if className = ''Object'' then Some (emptyObjectId snapshotId index)
                     else None);
                  a' =
                    (if v_members variable = None \<and> className = ''Object''
                     then a\<lparr>propertyDescriptorListMap :=
                              (propertyDescriptorListMap a)
                                (emptyObjectId snapshotId index \<mapsto> [])\<rparr>
                     else a)
              in (Inr (m(index \<mapsto>
                    \<lparr>ro_type = ''object'', ro_subtype = subtype,
                     ro_className = Some className, ro_description = Some description,
                     ro_objectId = objectId, ro_value = None,
                     ro_unserializableValue = None\<rparr>)), a')))
      else
        (case logVariableStatus (Some a) variable of
           Inl e \<Rightarrow> (Inl e, a)
         | Inr a' \<Rightarrow> (Inr m, a')))"

fun firstPass ::
  "host \<Rightarrow> string \<Rightarrow> variable list \<Rightarrow> nat \<Rightarrow> (nat \<rightharpoonup> remoteObject) \<Rightarrow> adapter \<Rightarrow>
     (error + (nat \<rightharpoonup> remoteObject)) \<times> adapter" where
  "firstPass h snapshotId [] index m a = (Inr m, a)"
| "firstPass h snapshotId (variable # rest) index m a =
     (case firstPassEntry h snapshotId variable index m a of
        (Inl e, a') \<Rightarrow> (Inl e, a')
      | (Inr m', a') \<Rightarrow> firstPass h snapshotId rest (Suc index) m' a')"

text \<open>
  The body of the second \<open>forEach\<close> over the variable table;
  \<open>propertyDescriptorList\<close> is its constant of that name.
\<close>

definition propertyDescriptorList ::
  "host \<Rightarrow> (nat \<rightharpoonup> remoteObject) \<Rightarrow> variable \<Rightarrow> nat \<Rightarrow> error + propertyDescriptor list"
  where
  "propertyDescriptorList h m variable index =
     (case v_members variable of
        Some members \<Rightarrow> parseVariableList h m members
      | None \<Rightarrow>
          Inr [\<lparr>pd_name = the (v_value variable), pd_value = m index,
                pd_configurable = False, pd_enumerable = True\<rparr>])"

definition secondPassEntry ::
  "host \<Rightarrow> string \<Rightarrow> (nat \<rightharpoonup> remoteObject) \<Rightarrow> variable \<Rightarrow> nat \<Rightarrow> adapter \<Rightarrow>
     (error + unit) \<times> adapter" where
  "secondPassEntry h snapshotId m variable index a =
     (if truthy (v_type variable) \<or> truthyNumber (v_varTableIndex variable)
      then (Inl EntryHasTypeOrIndex, a)
      else if truthy (v_value variable) then
        (case propertyDescriptorList h m variable index of
           Inl e \<Rightarrow> (Inl e, a)
         | Inr list \<Rightarrow>
             (Inr (), a\<lparr>propertyDescriptorListMap :=
                (propertyDescriptorListMap a)(getObjectId snapshotId index \<mapsto> list)\<rparr>))
      else (Inr (), a))"

fun secondPass ::
  "host \<Rightarrow> string \<Rightarrow> (nat \<rightharpoonup> remoteObject) \<Rightarrow> variable list \<Rightarrow> nat \<Rightarrow> adapter \<Rightarrow>
     (error + unit) \<times> adapter" where
  "secondPass h snapshotId m [] index a = (Inr (), a)"
| "secondPass h snapshotId m (variable # rest) index a =
     (case secondPassEntry h snapshotId m variable index a of
        (Inl e, a') \<Rightarrow> (Inl e, a')
      | (Inr _, a') \<Rightarrow> secondPass h snapshotId m rest (Suc index) a')"

text \<open>
  The function mapped over the stack frames. \<open>popContext\<close> gives the context and the
  locals that are left after \<open>stackFrame.locals.pop()\<close>; \<open>contextRemoteObject\<close> and
  \<open>propertyList\<close> are the variables of these names. The frame is built in the order of
  the source: the locals, the test of \<open>arguments\<close>, the store under the scope identifier,
  the line number.
\<close>

definition popContext ::
  "(nat \<rightharpoonup> remoteObject) \<Rightarrow> variable list \<Rightarrow> remoteObject option \<times> variable list" where
  "popContext m locals =
     (if 0 < length locals \<and> v_name (last locals) = Some ''context'' \<and>
         truthyNumber (v_varTableIndex (last locals))
      then (m (the (v_varTableIndex (last locals))), butlast locals)
      else (None, locals))"

definition contextRemoteObject ::
  "(nat \<rightharpoonup> remoteObject) \<Rightarrow> stackFrame \<Rightarrow> remoteObject option" where
  "contextRemoteObject m stackFrame =
     (case sf_locals stackFrame of
        None \<Rightarrow> None
      | Some locals \<Rightarrow> fst (popContext m locals))"

definition propertyList ::
  "host \<Rightarrow> (nat \<rightharpoonup> remoteObject) \<Rightarrow> stackFrame \<Rightarrow> error + propertyDescriptor list" where
  "propertyList h m stackFrame =
     (case sf_locals stackFrame of
        None \<Rightarrow> Inr []
      | Some locals \<Rightarrow> parseVariableList h m (snd (popContext m locals)))"

definition toCallFrame ::
  "host \<Rightarrow> string \<Rightarrow> (nat \<rightharpoonup> remoteObject) \<Rightarrow> stackFrame \<Rightarrow> nat \<Rightarrow> adapter \<Rightarrow>
     (error + callFrame) \<times> adapter" where
  "toCallFrame h snapshotId m stackFrame index a =
     (case propertyList h m stackFrame of
        Inl e \<Rightarrow> (Inl e, a)
      | Inr properties \<Rightarrow>
          if sf_arguments stackFrame \<noteq> None then (Inl FrameHasArguments, a)
          else
            (let a' = a\<lparr>propertyDescriptorListMap :=
                         (propertyDescriptorListMap a)
                           (scopeId snapshotId index \<mapsto> properties)\<rparr>
             in case stackdriverToDevToolsLine (sl_line (sf_location stackFrame)) of
                  Inl e \<Rightarrow> (Inl e, a')
                | Inr line \<Rightarrow>
                    (Inr \<lparr>callFrameId = snapshotId @ ''-frame-'' @ string_of_nat index,
                          functionName = sf_function stackFrame,
                          cf_location =
                            \<lparr>scriptId = pathResolve h (sourceDirectory (debugProxy a))
                                          (sl_path (sf_location stackFrame)),
                             lineNumber = line, columnNumber = None\<rparr>,
                          scopeChain =
                            [\<lparr>scope_type = ''local'',
                              scope_object =
                                (remoteObjectOfType ''object'')
                                  \<lparr>ro_objectId := Some (scopeId snapshotId index)\<rparr>\<rparr>],
                          cf_this =
                            (case contextRemoteObject m stackFrame of
                               None \<Rightarrow> remoteObjectOfType ''undefined''
                             | Some remoteObject \<Rightarrow> remoteObject)\<rparr>, a')))"

fun toCallFrames ::
  "host \<Rightarrow> string \<Rightarrow> (nat \<rightharpoonup> remoteObject) \<Rightarrow> stackFrame list \<Rightarrow> nat \<Rightarrow> adapter \<Rightarrow>
     (error + callFrame list) \<times> adapter" where
  "toCallFrames h snapshotId m [] index a = (Inr [], a)"
| "toCallFrames h snapshotId m (stackFrame # rest) index a =
     (case toCallFrame h snapshotId m stackFrame index a of
        (Inl e, a') \<Rightarrow> (Inl e, a')
      | (Inr frame, a') \<Rightarrow>
          (case toCallFrames h snapshotId m rest (Suc index) a' of
             (Inl e, a'') \<Rightarrow> (Inl e, a'')
           | (Inr frames, a'') \<Rightarrow> (Inr (frame # frames), a'')))"

text \<open>
  \<open>loadSnapshot\<close> asks the client for the snapshot. An absent \<open>stackFrames\<close> or
  \<open>variableTable\<close> is the empty list. The result is paired with the adapter after the
  call, also when the call throws: what a failed call has stored stays in the map. The
  call also changes the snapshot object it was given (the two defaults, and the locals
  that lose their \<open>context\<close>); that object is not part of the result.
\<close>

definition loadSnapshot :: "host \<Rightarrow> adapter \<Rightarrow> string \<Rightarrow> (error + pausedEvent) \<times> adapter" where
  "loadSnapshot h a snapshotId =
     (case getBreakpoint (debugProxy a) snapshotId of
        Inl e \<Rightarrow> (Inl e, a)
      | Inr snapshot \<Rightarrow>
          (let stackFrames = (case bp_stackFrames snapshot of None \<Rightarrow> [] | Some fs \<Rightarrow> fs);
               variableTable = (case bp_variableTable snapshot of None \<Rightarrow> [] | Some vs \<Rightarrow> vs)
           in if bp_isFinalState snapshot \<noteq> Some True then (Inl NotCapturedSnapshot, a)
              else
                (case firstPass h (bp_id snapshot) variableTable 0 Map.empty a of
                   (Inl e, a1) \<Rightarrow> (Inl e, a1)
                 | (Inr m, a1) \<Rightarrow>
                     (case secondPass h (bp_id snapshot) m variableTable 0 a1 of
                        (Inl e, a2) \<Rightarrow> (Inl e, a2)
                      | (Inr _, a2) \<Rightarrow>
                          (case toCallFrames h (bp_id snapshot) m stackFrames 0 a2 of
                             (Inl e, a3) \<Rightarrow> (Inl e, a3)
                           | (Inr frames, a3) \<Rightarrow>
                               (Inr \<lparr>reason = ''other'', hitBreakpoints = [bp_id snapshot],
                                     callFrames = frames\<rparr>, a3))))))"

text \<open>
  The map \<open>varTableIndexToRemoteObjectMap\<close> of a call of \<open>loadSnapshot\<close> as the first
  pass leaves it; the theorems name the descriptors of the first pass by it.
\<close>

definition varTableIndexToRemoteObjectMap ::
  "host \<Rightarrow> adapter \<Rightarrow> breakpoint \<Rightarrow> (nat \<rightharpoonup> remoteObject)" where
  "varTableIndexToRemoteObjectMap h a snapshot =
     (case fst (firstPass h (bp_id snapshot)
                  (case bp_variableTable snapshot of None \<Rightarrow> [] | Some vs \<Rightarrow> vs)
                  0 Map.empty a) of
        Inl e \<Rightarrow> Map.empty
      | Inr m \<Rightarrow> m)"

subsection \<open>Examples\<close>

text \<open>
  A platform, a client and snapshots for the examples. \<open>exampleHost\<close> lowers the letters
  A to Z, takes the non-empty strings of decimal digits for numbers and no string for a
  date; it agrees with JavaScript on the strings of the examples. The arguments of
  \<open>Variable\<close> are \<open>name\<close>, \<open>value\<close>, \<open>type\<close>, \<open>varTableIndex\<close>, \<open>members\<close> and
  \<open>status\<close>, in this order.
\<close>

definition asciiLowerCase :: "string \<Rightarrow> string" where
  "asciiLowerCase s =
     map (\<lambda>c. case map_of (zip ''ABCDEFGHIJKLMNOPQRSTUVWXYZ'' ''abcdefghijklmnopqrstuvwxyz'') c of
                None \<Rightarrow> c
              | Some l \<Rightarrow> l) s"

definition exampleHost :: host where
  "exampleHost =
     \<lparr>toLowerCase = asciiLowerCase,
      isNumber = (\<lambda>s. s \<noteq> [] \<and> list_all (\<lambda>c. c \<in> set ''0123456789'') s),
      isoDate = (\<lambda>s. None),
      pathResolve = (\<lambda>d p. d @ ''/'' @ p),
      readFile = (\<lambda>p. Inl (Rejected ''ENOENT''))\<rparr>"

definition exampleProxy :: "breakpoint \<Rightarrow> debugProxy" where
  "exampleProxy snapshot =
     \<lparr>getDebuggerId = ''test-debugger-id'',
      sourceDirectory = ''/source-directory'',
      getBreakpoint =
        (\<lambda>i. if i = bp_id snapshot then Inr snapshot else Inl (Rejected ''not found'')),
      setBreakpoint =
        (\<lambda>r. Inr \<lparr>bp_id = ''test-breakpoint-id'',
                   bp_location =
                     \<lparr>sl_path = br_path r,
                      sl_line = (case br_line r of None \<Rightarrow> 0 | Some n \<Rightarrow> n)\<rparr>,
                   bp_isFinalState = None, bp_stackFrames = None,
                   bp_variableTable = None\<rparr>),
      removeBreakpoint = (\<lambda>i. Inr ()),
      getBreakpointList = (\<lambda>captured. if captured then [snapshot] else [])\<rparr>"

definition exampleAdapter :: "breakpoint \<Rightarrow> adapter" where
  "exampleAdapter snapshot =
     \<lparr>debugProxy = exampleProxy snapshot, logger = [],
      propertyDescriptorListMap = Map.empty, emitted = []\<rparr>"

definition exampleSnapshot :: "variable list \<Rightarrow> stackFrame list \<Rightarrow> breakpoint" where
  "exampleSnapshot table frames =
     \<lparr>bp_id = ''snap'', bp_location = \<lparr>sl_path = ''index.js'', sl_line = 3\<rparr>,
      bp_isFinalState = Some True, bp_stackFrames = Some frames,
      bp_variableTable = Some table\<rparr>"

text \<open>A table whose only entry is an object without members, and no frame.\<close>

definition emptyObjectSnapshot :: breakpoint where
  "emptyObjectSnapshot =
     exampleSnapshot [Variable None (Some ''#<Object>'') None None None None] []"

definition exampleDescriptor :: propertyDescriptor where
  "exampleDescriptor =
     \<lparr>pd_name = ''x'', pd_value = Some (remoteObjectOfType ''undefined''),
      pd_configurable = False, pd_enumerable = True\<rparr>"

definition exampleParams :: params where
  "exampleParams =
     \<lparr>p_url = None, p_lineNumber = None, p_condition = None, p_objectId = None,
      p_breakpointId = None, p_scriptId = None\<rparr>"

text \<open>A frame without locals whose \<open>arguments\<close> is the empty list.\<close>

definition argumentsSnapshot :: breakpoint where
  "argumentsSnapshot =
     exampleSnapshot []
       [\<lparr>sf_function = ''f'', sf_location = \<lparr>sl_path = ''index.js'', sl_line = 3\<rparr>,
         sf_locals = None, sf_arguments = Some []\<rparr>]"

text \<open>
  A frame whose \<open>arguments\<close> is the empty list and whose only local has a name, no
  value and the status of an error in its value.
\<close>

definition argumentsStatusLocalSnapshot :: breakpoint where
  "argumentsStatusLocalSnapshot =
     exampleSnapshot []
       [\<lparr>sf_function = ''f'', sf_location = \<lparr>sl_path = ''index.js'', sl_line = 3\<rparr>,
         sf_locals =
           Some [Variable (Some ''q'') None None None None
                   (Some \<lparr>st_isError = Some True, st_refersTo = Some ''VARIABLE_VALUE'',
                          st_description =
                            Some \<lparr>fm_format = Some ''Max data size reached''\<rparr>\<rparr>)],
         sf_arguments = Some []\<rparr>]"

text \<open>
  An error with a member \<open>message\<close> and no member \<open>stack\<close>, and the same error without
  members.
\<close>

definition errorSnapshot :: breakpoint where
  "errorSnapshot =
     exampleSnapshot
       [Variable None (Some ''Error: boom'') None None
          (Some [Variable (Some ''message'') (Some ''boom'') None None None None]) None] []"

definition errorWithoutMembersSnapshot :: breakpoint where
  "errorWithoutMembersSnapshot =
     exampleSnapshot [Variable None (Some ''Error: boom'') None None None None] []"

text \<open>
  Entries without a value: one with a status that is not an error, one with the status
  of an error in the value; and an object whose member \<open>self\<close> refers to index 0.
\<close>

definition informationStatus :: variable where
  "informationStatus =
     Variable None None None None None
       (Some \<lparr>st_isError = Some False, st_refersTo = Some ''VARIABLE_VALUE'',
              st_description = Some \<lparr>fm_format = Some ''Only first 10 properties were captured''\<rparr>\<rparr>)"

definition errorStatus :: variable where
  "errorStatus =
     Variable None None None None None
       (Some \<lparr>st_isError = Some True, st_refersTo = Some ''VARIABLE_VALUE'',
              st_description = Some \<lparr>fm_format = Some ''Max data size reached''\<rparr>\<rparr>)"

definition informationStatusSnapshot :: breakpoint where
  "informationStatusSnapshot = exampleSnapshot [informationStatus] []"

definition selfReferenceSnapshot :: breakpoint where
  "selfReferenceSnapshot =
     exampleSnapshot
       [Variable None (Some ''#<Object>'') None None
          (Some [Variable (Some ''self'') None None (Some 0) None None]) None] []"

text \<open>
  A table with the status of an error at index 0 and an object with one member at index
  1, and a frame whose locals end with a \<open>context\<close> that refers to index 1; then two
  snapshots whose \<open>context\<close> has the index 0, the second with a value as well.
\<close>

definition contextTable :: "variable list" where
  "contextTable =
     [errorStatus,
      Variable None (Some ''#<Object>'') None None
        (Some [Variable (Some ''a'') (Some ''1'') None None None None]) None]"

definition contextLocals :: "variable list" where
  "contextLocals =
     [Variable (Some ''x'') (Some ''hello'') None None None None,
      Variable (Some ''context'') None None (Some 1) None None]"

definition exampleFrame :: "variable list \<Rightarrow> stackFrame" where
  "exampleFrame locals =
     \<lparr>sf_function = ''f'', sf_location = \<lparr>sl_path = ''index.js'', sl_line = 3\<rparr>,
      sf_locals = Some locals, sf_arguments = None\<rparr>"

definition contextSnapshot :: breakpoint where
  "contextSnapshot = exampleSnapshot contextTable [exampleFrame contextLocals]"



section \<open>Line numbers: theorems\<close>

lemma exponent_small: "m < 2 ^ 53 \<Longrightarrow> exponent m = 0"
  by (simp add: exponent.simps)

lemma roundMagnitude_small: "exponent m = 0 \<Longrightarrow> roundMagnitude m = m"
  by (simp add: roundMagnitude_def)

lemma exponent_first: "exponent (2 ^ 53) = 1"
  by (subst exponent.simps, simp, subst exponent.simps, simp)

lemma roundMagnitude_first: "roundMagnitude (2 ^ 53) = 2 ^ 53"
  unfolding roundMagnitude_def Let_def exponent_first by simp

lemma roundMagnitude_exact: "m \<le> 2 ^ 53 \<Longrightarrow> roundMagnitude m = m"
  using exponent_small [of m] roundMagnitude_small [of m] roundMagnitude_first
  by (cases "m < 2 ^ 53") auto

lemma toDouble_exact: "\<bar>i\<bar> \<le> 2 ^ 53 \<Longrightarrow> toDouble i = i"
  using roundMagnitude_exact [of i] roundMagnitude_exact [of "- i"]
  by (auto simp: toDouble_def)

text \<open>
  The claim C8 as it is written fails where the sum is rounded: \<open>2 ^ 53\<close> is a double,
  its successor is not, and translating \<open>2 ^ 53\<close> to a one-indexed line and back gives
  \<open>2 ^ 53 - 1\<close>.
\<close>

theorem line_translation_rounds_counterexample:
  "toDouble 9007199254740992 = 9007199254740992 \<and>
   stackdriverToDevToolsLine (devToolsToStackdriverLine 9007199254740992) =
     Inr 9007199254740991"
  by code_simp

text \<open>
  C8, amended. For every integer line number \<open>n\<close> with \<open>1 \<le> n < 2 ^ 53\<close>, translating
  \<open>n\<close> to a zero-indexed line and back gives \<open>n\<close>, and so does translating it to a
  one-indexed line and back; and the translation of a one-indexed line to a zero-indexed
  one fails for every input below 1.
\<close>

theorem line_translation_round_trip:
  "(1 \<le> n \<and> n < 2 ^ 53 \<longrightarrow>
      map_sum id devToolsToStackdriverLine (stackdriverToDevToolsLine n) = Inr n \<and>
      stackdriverToDevToolsLine (devToolsToStackdriverLine n) = Inr n) \<and>
   (m < 1 \<longrightarrow> stackdriverToDevToolsLine m = Inl (InvalidLineNumber m))"
proof (intro conjI impI)
  assume n: "1 \<le> n \<and> n < 2 ^ 53"
  then have "toDouble (n - 1) = n - 1" "toDouble (n + 1) = n + 1" "toDouble n = n"
    by (simp_all add: toDouble_exact)
  with n show "map_sum id devToolsToStackdriverLine (stackdriverToDevToolsLine n) = Inr n"
    and "stackdriverToDevToolsLine (devToolsToStackdriverLine n) = Inr n"
    by (simp_all add: devToolsToStackdriverLine_def stackdriverToDevToolsLine_def)
next
  assume "m < 1"
  then show "stackdriverToDevToolsLine m = Inl (InvalidLineNumber m)"
    by (simp add: stackdriverToDevToolsLine_def)
qed

theorem line_translation_round_trip_witness:
  "map_sum id devToolsToStackdriverLine (stackdriverToDevToolsLine 1338) = Inr 1338 \<and>
   stackdriverToDevToolsLine (devToolsToStackdriverLine 1338) = Inr 1338 \<and>
   map_sum id devToolsToStackdriverLine (stackdriverToDevToolsLine 9007199254740991) =
     Inr 9007199254740991 \<and>
   stackdriverToDevToolsLine (devToolsToStackdriverLine 9007199254740991) =
     Inr 9007199254740991 \<and>
   stackdriverToDevToolsLine 0 = Inl (InvalidLineNumber 0)"
  using line_translation_round_trip [of 1338 0]
    line_translation_round_trip [of 9007199254740991 0]
  by simp

section \<open>The request router: theorems\<close>

text \<open>
  A method string \<open>Domain.method\<close> whose two parts have no dot is split into these two
  parts.
\<close>

lemma split_no_separator: "c \<notin> set s \<Longrightarrow> split c s = [s]"
  by (induction s) auto

lemma split_domain_method:
  "CHR ''.'' \<notin> set d \<Longrightarrow> CHR ''.'' \<notin> set m \<Longrightarrow> split CHR ''.'' (d @ CHR ''.'' # m) = [d, m]"
  by (induction d) (auto simp: split_no_separator)

lemma processRequest_Debugger:
  "CHR ''.'' \<notin> set m \<Longrightarrow> rq_method request = ''Debugger.'' @ m \<Longrightarrow>
   processRequest h a request = debuggerRequest h a request (Some m)"
  using split_domain_method [of "''Debugger''" m]
  by (simp add: processRequest_def)

lemma processRequest_Runtime:
  "CHR ''.'' \<notin> set m \<Longrightarrow> rq_method request = ''Runtime.'' @ m \<Longrightarrow>
   processRequest h a request = runtimeRequest a request (Some m)"
  using split_domain_method [of "''Runtime''" m]
  by (simp add: processRequest_def)

lemma debuggerUnsupported_fails:
  "m \<in> set debuggerUnsupported \<Longrightarrow>
   debuggerRequest h a request (Some m) = (Inl (NotSupported (rq_method request)), a)"
  unfolding debuggerUnsupported_def debuggerRequest_def
  by (simp, elim disjE; simp)

lemma debuggerNoEffect_empty:
  "m \<in> set debuggerNoEffect \<union> set debuggerUnimplemented \<Longrightarrow>
   debuggerRequest h a request (Some m) = (Inr EmptyResponse, a)"
  unfolding debuggerUnsupported_def debuggerNoEffect_def debuggerUnimplemented_def
    debuggerRequest_def
  by (simp, elim disjE; simp)

lemma runtimeUnsupported_fails:
  "m \<in> set runtimeUnsupported \<Longrightarrow>
   runtimeRequest a request (Some m) = (Inl (NotSupported (rq_method request)), a)"
  unfolding runtimeUnsupported_def runtimeRequest_def
  by (simp, elim disjE; simp)

lemma runtimeNoEffect_empty:
  "m \<in> set runtimeNoEffect \<Longrightarrow>
   runtimeRequest a request (Some m) = (Inr EmptyResponse, a)"
  unfolding runtimeUnsupported_def runtimeNoEffect_def runtimeRequest_def
  by (simp, elim disjE; simp)

lemma method_without_dot:
  "m \<in> set debuggerUnsupported \<union> set debuggerNoEffect \<union> set debuggerUnimplemented \<union>
       set runtimeUnsupported \<union> set runtimeNoEffect \<Longrightarrow> CHR ''.'' \<notin> set m"
  unfolding debuggerUnsupported_def debuggerNoEffect_def debuggerUnimplemented_def
    runtimeUnsupported_def runtimeNoEffect_def
  by (simp, elim disjE; simp)

text \<open>
  C5. A \<open>setBreakpointByUrl\<close> request with \<open>lineNumber\<close> 1337 and \<open>url\<close> \<open>/path\<close>, for
  which the client returns a breakpoint at the one-indexed line 1338, is answered with the
  identifier of that breakpoint and a single location: its \<open>scriptId\<close> is the path of the
  breakpoint, its \<open>lineNumber\<close> the zero-indexed 1337 and its \<open>columnNumber\<close> 0.
\<close>

theorem setBreakpointByUrl_line_1337:
  assumes "rq_method request = ''Debugger.setBreakpointByUrl''"
    and "rq_params request = Some p"
    and "p_url p = Some ''/path''" and "p_lineNumber p = Some 1337"
    and "setBreakpoint (debugProxy a)
           \<lparr>br_action = CAPTURE, br_path = ''/path'', br_line = Some 1338,
            br_condition = p_condition p\<rparr> = Inr breakpoint"
    and "sl_line (bp_location breakpoint) = 1338"
  shows "fst (processRequest h a request) =
           Inr (SetBreakpointByUrlResponse (bp_id breakpoint)
                  [\<lparr>scriptId = sl_path (bp_location breakpoint), lineNumber = 1337,
                    columnNumber = Some 0\<rparr>])"
  using assms processRequest_Debugger [of "''setBreakpointByUrl''" request h a]
  by (simp add: debuggerRequest_def truthy_def devToolsToStackdriverLine_def
      stackdriverToDevToolsLine_def toDouble_exact)

theorem setBreakpointByUrl_line_1337_witness:
  "fst (processRequest exampleHost (exampleAdapter emptyObjectSnapshot)
          \<lparr>rq_id = 0, rq_method = ''Debugger.setBreakpointByUrl'',
           rq_params = Some (exampleParams\<lparr>p_url := Some ''/path'', p_lineNumber := Some 1337\<rparr>)\<rparr>) =
     Inr (SetBreakpointByUrlResponse ''test-breakpoint-id''
            [\<lparr>scriptId = ''/path'', lineNumber = 1337, columnNumber = Some 0\<rparr>])"
  using setBreakpointByUrl_line_1337
    [of "\<lparr>rq_id = 0, rq_method = ''Debugger.setBreakpointByUrl'',
          rq_params = Some (exampleParams\<lparr>p_url := Some ''/path'', p_lineNumber := Some 1337\<rparr>)\<rparr>"
        "exampleParams\<lparr>p_url := Some ''/path'', p_lineNumber := Some 1337\<rparr>"
        "exampleAdapter emptyObjectSnapshot"
        "\<lparr>bp_id = ''test-breakpoint-id'',
          bp_location = \<lparr>sl_path = ''/path'', sl_line = 1338\<rparr>,
          bp_isFinalState = None, bp_stackFrames = None, bp_variableTable = None\<rparr>"
        exampleHost]
  by (simp add: exampleParams_def exampleAdapter_def exampleProxy_def)

text \<open>
  C6. A request whose method is one of the unsupported methods of the Debugger or of the
  Runtime domain fails, whatever its parameters; a request whose method is one of the
  methods without effect is answered with the empty result, whatever its parameters. The
  adapter is left as it was.
\<close>

theorem unsupported_fail_noEffect_empty:
  "(\<forall>m \<in> set debuggerUnsupported. rq_method request = ''Debugger.'' @ m \<longrightarrow>
      processRequest h a request = (Inl (NotSupported (rq_method request)), a)) \<and>
   (\<forall>m \<in> set runtimeUnsupported. rq_method request = ''Runtime.'' @ m \<longrightarrow>
      processRequest h a request = (Inl (NotSupported (rq_method request)), a)) \<and>
   (\<forall>m \<in> set debuggerNoEffect \<union> set debuggerUnimplemented.
      rq_method request = ''Debugger.'' @ m \<longrightarrow>
      processRequest h a request = (Inr EmptyResponse, a)) \<and>
   (\<forall>m \<in> set runtimeNoEffect. rq_method request = ''Runtime.'' @ m \<longrightarrow>
      processRequest h a request = (Inr EmptyResponse, a))"
proof (intro conjI ballI impI)
  fix m assume "m \<in> set debuggerUnsupported" "rq_method request = ''Debugger.'' @ m"
  then show "processRequest h a request = (Inl (NotSupported (rq_method request)), a)"
    using method_without_dot [of m] processRequest_Debugger [of m request h a]
      debuggerUnsupported_fails [of m h a request] by simp
next
  fix m assume "m \<in> set runtimeUnsupported" "rq_method request = ''Runtime.'' @ m"
  then show "processRequest h a request = (Inl (NotSupported (rq_method request)), a)"
    using method_without_dot [of m] processRequest_Runtime [of m request h a]
      runtimeUnsupported_fails [of m a request] by simp
next
  fix m assume "m \<in> set debuggerNoEffect \<union> set debuggerUnimplemented"
    "rq_method request = ''Debugger.'' @ m"
  then show "processRequest h a request = (Inr EmptyResponse, a)"
    using method_without_dot [of m] processRequest_Debugger [of m request h a]
      debuggerNoEffect_empty [of m h a request] by auto
next
  fix m assume "m \<in> set runtimeNoEffect" "rq_method request = ''Runtime.'' @ m"
  then show "processRequest h a request = (Inr EmptyResponse, a)"
    using method_without_dot [of m] processRequest_Runtime [of m request h a]
      runtimeNoEffect_empty [of m a request] by simp
qed

theorem unsupported_fail_noEffect_empty_witness:
  "processRequest exampleHost (exampleAdapter emptyObjectSnapshot)
     \<lparr>rq_id = 1, rq_method = ''Debugger.stepInto'', rq_params = Some exampleParams\<rparr> =
     (Inl (NotSupported ''Debugger.stepInto''), exampleAdapter emptyObjectSnapshot) \<and>
   processRequest exampleHost (exampleAdapter emptyObjectSnapshot)
     \<lparr>rq_id = 2, rq_method = ''Runtime.evaluate'', rq_params = None\<rparr> =
     (Inl (NotSupported ''Runtime.evaluate''), exampleAdapter emptyObjectSnapshot) \<and>
   processRequest exampleHost (exampleAdapter emptyObjectSnapshot)
     \<lparr>rq_id = 3, rq_method = ''Debugger.setBreakpointsActive'', rq_params = None\<rparr> =
     (Inr EmptyResponse, exampleAdapter emptyObjectSnapshot) \<and>
   processRequest exampleHost (exampleAdapter emptyObjectSnapshot)
     \<lparr>rq_id = 4, rq_method = ''Runtime.releaseObject'', rq_params = Some exampleParams\<rparr> =
     (Inr EmptyResponse, exampleAdapter emptyObjectSnapshot)"
  using unsupported_fail_noEffect_empty
      [of "\<lparr>rq_id = 1, rq_method = ''Debugger.stepInto'', rq_params = Some exampleParams\<rparr>"
          exampleHost "exampleAdapter emptyObjectSnapshot"]
    unsupported_fail_noEffect_empty
      [of "\<lparr>rq_id = 2, rq_method = ''Runtime.evaluate'', rq_params = None\<rparr>"
          exampleHost "exampleAdapter emptyObjectSnapshot"]
    unsupported_fail_noEffect_empty
      [of "\<lparr>rq_id = 3, rq_method = ''Debugger.setBreakpointsActive'', rq_params = None\<rparr>"
          exampleHost "exampleAdapter emptyObjectSnapshot"]
    unsupported_fail_noEffect_empty
      [of "\<lparr>rq_id = 4, rq_method = ''Runtime.releaseObject'', rq_params = Some exampleParams\<rparr>"
          exampleHost "exampleAdapter emptyObjectSnapshot"]
  by (simp add: debuggerUnsupported_def runtimeUnsupported_def debuggerNoEffect_def
      runtimeNoEffect_def)

text \<open>
  C7. \<open>Runtime.getProperties\<close> with an object identifier that the map of property
  descriptor lists does not hold fails with the error of an object that is not found;
  with an identifier that the map holds, it returns the list stored for it, as it is
  stored.
\<close>

theorem getProperties_lookup:
  "rq_method request = ''Runtime.getProperties'' \<Longrightarrow> rq_params request = Some p \<Longrightarrow>
   p_objectId p = Some objectId \<Longrightarrow>
   processRequest h a request =
     (case propertyDescriptorListMap a objectId of
        None \<Rightarrow> (Inl (ObjectNotFound (Some objectId)), a)
      | Some stored \<Rightarrow> (Inr (GetPropertiesResponse stored), a))"
  using processRequest_Runtime [of "''getProperties''" request h a]
  by (simp add: runtimeRequest_def split: option.splits)

theorem getProperties_lookup_witness:
  "fst (processRequest exampleHost
          ((exampleAdapter emptyObjectSnapshot)
             \<lparr>propertyDescriptorListMap := [''snap-scope-0'' \<mapsto> [exampleDescriptor, exampleDescriptor]]\<rparr>)
          \<lparr>rq_id = 0, rq_method = ''Runtime.getProperties'',
           rq_params = Some (exampleParams\<lparr>p_objectId := Some ''snap-scope-0''\<rparr>)\<rparr>) =
     Inr (GetPropertiesResponse [exampleDescriptor, exampleDescriptor]) \<and>
   fst (processRequest exampleHost (exampleAdapter emptyObjectSnapshot)
          \<lparr>rq_id = 0, rq_method = ''Runtime.getProperties'',
           rq_params = Some (exampleParams\<lparr>p_objectId := Some ''snap-scope-0''\<rparr>)\<rparr>) =
     Inl (ObjectNotFound (Some ''snap-scope-0''))"
  using getProperties_lookup
      [of "\<lparr>rq_id = 0, rq_method = ''Runtime.getProperties'',
            rq_params = Some (exampleParams\<lparr>p_objectId := Some ''snap-scope-0''\<rparr>)\<rparr>"
          "exampleParams\<lparr>p_objectId := Some ''snap-scope-0''\<rparr>" "''snap-scope-0''" exampleHost
          "(exampleAdapter emptyObjectSnapshot)
             \<lparr>propertyDescriptorListMap := [''snap-scope-0'' \<mapsto> [exampleDescriptor, exampleDescriptor]]\<rparr>"]
    getProperties_lookup
      [of "\<lparr>rq_id = 0, rq_method = ''Runtime.getProperties'',
            rq_params = Some (exampleParams\<lparr>p_objectId := Some ''snap-scope-0''\<rparr>)\<rparr>"
          "exampleParams\<lparr>p_objectId := Some ''snap-scope-0''\<rparr>" "''snap-scope-0''" exampleHost
          "exampleAdapter emptyObjectSnapshot"]
  by (simp add: exampleParams_def exampleAdapter_def)

section \<open>Snapshot translation: the errors it throws\<close>

text \<open>
  \<open>logVariableStatus\<close> without \<open>this\<close> never returns. Every error of the first pass
  is a data-shape error; an error of the second pass or of a frame is a data-shape error
  or the \<open>TypeError\<close> of the logger.
\<close>

lemma logVariableStatus_error:
  "logVariableStatus this variable = Inl e \<Longrightarrow>
   e = UnexpectedStatusFormat \<or> (this = None \<and> e = TypeError ''logger'')"
  by (auto simp: logVariableStatus_def writeLog_def split: option.splits if_splits)

lemma logVariableStatus_no_receiver: "\<exists>e. logVariableStatus None variable = Inl e"
  by (auto simp: logVariableStatus_def writeLog_def split: option.splits if_splits)

lemma parseVariable_error:
  "parseVariable h m variable = Inl e \<Longrightarrow> dataShapeError e \<or> e = TypeError ''logger''"
  by (auto simp: parseVariable_def split: if_splits sum.splits dest!: logVariableStatus_error)

lemma mapThrowing_error:
  "mapThrowing f xs = Inl e \<Longrightarrow> \<exists>x \<in> set xs. f x = Inl e"
  by (induction xs) (auto split: sum.splits)

lemma parseVariableList_error:
  "parseVariableList h m list = Inl e \<Longrightarrow> dataShapeError e \<or> e = TypeError ''logger''"
  unfolding parseVariableList_def
  by (cases "mapThrowing (parseVariable h m) list")
     (auto dest!: mapThrowing_error parseVariable_error)

lemma classifyValue_error: "classifyValue h variable = Inl e \<Longrightarrow> dataShapeError e"
  by (auto simp: classifyValue_def Let_def split: if_splits option.splits)

lemma firstPassEntry_error:
  "firstPassEntry h sid variable i m a = (Inl e, a') \<Longrightarrow> dataShapeError e"
  by (auto simp: firstPassEntry_def Let_def split: if_splits sum.splits prod.splits
      dest!: classifyValue_error logVariableStatus_error)

lemma firstPass_error:
  "firstPass h sid table i m a = (Inl e, a') \<Longrightarrow> dataShapeError e"
proof (induction table arbitrary: i m a)
  case Nil
  then show ?case by simp
next
  case (Cons variable rest)
  then show ?case
    by (auto split: prod.splits sum.splits dest: firstPassEntry_error)
qed

lemma secondPassEntry_error:
  "secondPassEntry h sid m variable i a = (Inl e, a') \<Longrightarrow>
   dataShapeError e \<or> e = TypeError ''logger''"
  by (auto simp: secondPassEntry_def propertyDescriptorList_def
      split: if_splits sum.splits option.splits dest!: parseVariableList_error)

lemma secondPass_error:
  "secondPass h sid m table i a = (Inl e, a') \<Longrightarrow>
   dataShapeError e \<or> e = TypeError ''logger''"
proof (induction table arbitrary: i a)
  case Nil
  then show ?case by simp
next
  case (Cons variable rest)
  then show ?case
    by (auto split: prod.splits sum.splits dest: secondPassEntry_error)
qed

lemma toCallFrame_error:
  "toCallFrame h sid m stackFrame i a = (Inl e, a') \<Longrightarrow>
   dataShapeError e \<or> e = TypeError ''logger''"
  by (auto simp: toCallFrame_def propertyList_def Let_def stackdriverToDevToolsLine_def
      split: if_splits sum.splits option.splits dest!: parseVariableList_error)

lemma toCallFrames_error:
  "toCallFrames h sid m frames i a = (Inl e, a') \<Longrightarrow>
   dataShapeError e \<or> e = TypeError ''logger''"
proof (induction frames arbitrary: i a)
  case Nil
  then show ?case by simp
next
  case (Cons stackFrame rest)
  then show ?case
    by (auto split: prod.splits sum.splits dest: toCallFrame_error)
qed

lemma loadSnapshot_error:
  assumes "getBreakpoint (debugProxy a) snapshotId = Inr snapshot"
    and "fst (loadSnapshot h a snapshotId) = Inl e"
  shows "dataShapeError e \<or> e = TypeError ''logger''"
  using assms
  by (auto simp: loadSnapshot_def Let_def split: if_splits sum.splits prod.splits
      dest: firstPass_error secondPass_error toCallFrames_error)

section \<open>Stack frames with arguments\<close>

lemma toCallFrame_arguments:
  "sf_arguments stackFrame \<noteq> None \<Longrightarrow> \<exists>e. toCallFrame h sid m stackFrame i a = (Inl e, a)"
  by (auto simp: toCallFrame_def Let_def split: sum.splits option.splits)

lemma toCallFrames_arguments:
  "stackFrame \<in> set frames \<Longrightarrow> sf_arguments stackFrame \<noteq> None \<Longrightarrow>
   \<exists>e. fst (toCallFrames h sid m frames i a) = Inl e"
proof (induction frames arbitrary: i a)
  case Nil
  then show ?case by simp
next
  case (Cons f rest)
  show ?case
  proof (cases "toCallFrame h sid m f i a")
    case (Pair r a')
    show ?thesis
    proof (cases r)
      case (Inl e)
      with Pair show ?thesis by simp
    next
      case (Inr frame)
      with Pair Cons.prems toCallFrame_arguments [of f h sid m i a]
      have "stackFrame \<in> set rest" by auto
      from Cons.IH [OF this Cons.prems(2), of "Suc i" a'] Pair Inr
      show ?thesis by (auto split: prod.splits sum.splits)
    qed
  qed
qed

text \<open>
  A snapshot with a stack frame whose \<open>arguments\<close> is present, be it the empty list, is
  not translated: \<open>loadSnapshot\<close> fails. The test of \<open>arguments\<close> throws the data-shape
  error \<open>FrameHasArguments\<close>; it is the error of the frame whenever the locals of the
  frame have been translated (\<open>propertyList\<close> returns). The locals are translated before
  the test, so an error can be thrown before it: a data-shape error, or the \<open>TypeError\<close>
  of the logger read from no \<open>this\<close>.
\<close>

lemma arguments_present_always_fails:
  assumes "getBreakpoint (debugProxy a) snapshotId = Inr snapshot"
    and "bp_stackFrames snapshot = Some frames"
    and "stackFrame \<in> set frames"
    and "sf_arguments stackFrame = Some arguments"
  shows "(\<exists>e. fst (loadSnapshot h a snapshotId) = Inl e \<and>
              (dataShapeError e \<or> e = TypeError ''logger'')) \<and>
         (\<forall>m i a' properties. propertyList h m stackFrame = Inr properties \<longrightarrow>
            toCallFrame h (bp_id snapshot) m stackFrame i a' = (Inl FrameHasArguments, a'))"
proof
  have "\<And>m a2 r a3. toCallFrames h (bp_id snapshot) m frames 0 a2 = (r, a3) \<Longrightarrow> \<exists>e. r = Inl e"
    using toCallFrames_arguments [OF assms(3), of h "bp_id snapshot" _ 0] assms(4)
    by (metis fst_conv option.distinct(1))
  then have "\<exists>e. fst (loadSnapshot h a snapshotId) = Inl e"
    using assms(1,2)
    by (fastforce simp: loadSnapshot_def Let_def split: sum.splits prod.splits)
  then show "\<exists>e. fst (loadSnapshot h a snapshotId) = Inl e \<and>
              (dataShapeError e \<or> e = TypeError ''logger'')"
    using loadSnapshot_error [OF assms(1)] by blast
next
  show "\<forall>m i a' properties. propertyList h m stackFrame = Inr properties \<longrightarrow>
          toCallFrame h (bp_id snapshot) m stackFrame i a' = (Inl FrameHasArguments, a')"
    using assms(4) by (simp add: toCallFrame_def)
qed

lemma arguments_empty_without_locals:
  "fst (loadSnapshot exampleHost (exampleAdapter argumentsSnapshot) ''snap'') =
     Inl FrameHasArguments"
  using arguments_present_always_fails
      [of "exampleAdapter argumentsSnapshot" "''snap''" argumentsSnapshot
          "[\<lparr>sf_function = ''f'', sf_location = \<lparr>sl_path = ''index.js'', sl_line = 3\<rparr>,
             sf_locals = None, sf_arguments = Some []\<rparr>]"
          "\<lparr>sf_function = ''f'', sf_location = \<lparr>sl_path = ''index.js'', sl_line = 3\<rparr>,
            sf_locals = None, sf_arguments = Some []\<rparr>" "[]" exampleHost]
  by (simp add: loadSnapshot_def propertyList_def exampleAdapter_def exampleProxy_def
      exampleSnapshot_def argumentsSnapshot_def)

text \<open>
  C10. For every stack frame whose \<open>arguments\<close> is present, \<open>loadSnapshot\<close> is to fail
  with a data-shape error, even when the list is empty. It does not on a frame with the
  empty list of arguments and a local that has a status and no value: \<open>parseVariable\<close>
  passes the local to \<open>logVariableStatus\<close> with no \<open>this\<close> before the arguments are
  tested, and the call fails with the \<open>TypeError\<close> of the logger, which is not a
  data-shape error.
\<close>

theorem arguments_after_status_local_type_error:
  "fst (loadSnapshot exampleHost (exampleAdapter argumentsStatusLocalSnapshot) ''snap'') =
     Inl (TypeError ''logger'') \<and>
   dataShapeError (TypeError ''logger'') = False"
  by code_simp


section \<open>Errors in the variable table\<close>

text \<open>
  The claim C3 as it is written fails: an entry whose value starts with \<open>Error\<close> and
  that has members, none of them named \<open>stack\<close>, is translated.
\<close>

theorem error_with_members_counterexample:
  "fst (loadSnapshot exampleHost (exampleAdapter errorSnapshot) ''snap'') =
     Inr \<lparr>reason = ''other'', hitBreakpoints = [''snap''], callFrames = []\<rparr>"
  by code_simp

lemma startsWith_Error:
  "startsWith v ''Error'' \<Longrightarrow> v \<noteq> [] \<and> \<not> startsWith v ''#<''"
  by (cases v) (auto simp: startsWith_def)

lemma firstPassEntry_error_without_members:
  "v_value variable = Some v \<Longrightarrow> startsWith v ''Error'' \<Longrightarrow> v_members variable = None \<Longrightarrow>
   \<exists>e. fst (firstPassEntry h sid variable i m a) = Inl e"
  using startsWith_Error [of v]
  by (auto simp: firstPassEntry_def classifyValue_def truthy_def)

lemma firstPass_fails:
  assumes "variable \<in> set table"
    and "\<And>i m a. \<exists>e. fst (firstPassEntry h sid variable i m a) = Inl e"
  shows "\<exists>e. fst (firstPass h sid table i m a) = Inl e"
  using assms(1)
proof (induction table arbitrary: i m a)
  case Nil
  then show ?case by simp
next
  case (Cons x rest)
  show ?case
  proof (cases "firstPassEntry h sid x i m a")
    case (Pair r a')
    show ?thesis
    proof (cases r)
      case (Inl e)
      with Pair show ?thesis by simp
    next
      case (Inr m')
      with Pair assms(2) [of i m a] have "x \<noteq> variable" by auto
      with Cons.prems have "variable \<in> set rest" by simp
      from Cons.IH [OF this, of "Suc i" m' a'] Pair Inr show ?thesis by simp
    qed
  qed
qed

text \<open>
  C3, amended. For every entry of the variable table whose value starts with \<open>Error\<close>
  and that has no \<open>members\<close> at all, \<open>loadSnapshot\<close> fails with a data-shape error. When
  the entry has members, its description is the value of the first member named \<open>stack\<close>
  with a non-empty value, and \<open>Error\<close> when there is none.
\<close>

theorem error_without_members_fails:
  assumes "getBreakpoint (debugProxy a) snapshotId = Inr snapshot"
    and "bp_variableTable snapshot = Some table"
    and "variable \<in> set table"
    and "v_value variable = Some v" and "startsWith v ''Error''"
  shows "(v_members variable = None \<longrightarrow>
            (\<exists>e. fst (loadSnapshot h a snapshotId) = Inl e \<and> dataShapeError e)) \<and>
         (\<forall>members. v_members variable = Some members \<longrightarrow>
            classifyValue h variable =
              Inr (''Error'', Some ''error'',
                   case find (\<lambda>member. v_name member = Some ''stack'' \<and> truthy (v_value member))
                          members of
                     None \<Rightarrow> ''Error''
                   | Some member \<Rightarrow> the (v_value member)))"
proof (intro conjI impI allI)
  assume none: "v_members variable = None"
  obtain r a1 where fp: "firstPass h (bp_id snapshot) table 0 Map.empty a = (r, a1)"
    by (cases "firstPass h (bp_id snapshot) table 0 Map.empty a")
  from firstPass_fails [OF assms(3), of h "bp_id snapshot" 0 Map.empty a]
    firstPassEntry_error_without_members [OF assms(4,5) none] fp
  obtain e where e: "r = Inl e" by auto
  with fp have "dataShapeError e" by (auto dest: firstPass_error)
  with fp e assms(1,2)
  show "\<exists>e. fst (loadSnapshot h a snapshotId) = Inl e \<and> dataShapeError e"
    by (auto simp: loadSnapshot_def Let_def)
next
  fix members assume "v_members variable = Some members"
  with assms(4,5) startsWith_Error [of v]
  show "classifyValue h variable =
          Inr (''Error'', Some ''error'',
               case find (\<lambda>member. v_name member = Some ''stack'' \<and> truthy (v_value member))
                      members of
                 None \<Rightarrow> ''Error''
               | Some member \<Rightarrow> the (v_value member))"
    by (auto simp: classifyValue_def split: option.splits)
qed

theorem error_without_members_fails_witness:
  "(\<exists>e. fst (loadSnapshot exampleHost (exampleAdapter errorWithoutMembersSnapshot) ''snap'') = Inl e \<and>
        dataShapeError e) \<and>
   classifyValue exampleHost
     (Variable None (Some ''Error: boom'') None None
        (Some [Variable (Some ''message'') (Some ''boom'') None None None None]) None) =
     Inr (''Error'', Some ''error'', ''Error'')"
  using error_without_members_fails
      [of "exampleAdapter errorWithoutMembersSnapshot" "''snap''" errorWithoutMembersSnapshot
          "[Variable None (Some ''Error: boom'') None None None None]"
          "Variable None (Some ''Error: boom'') None None None None" "''Error: boom''" exampleHost]
    error_without_members_fails
      [of "exampleAdapter errorSnapshot" "''snap''" errorSnapshot
          "[Variable None (Some ''Error: boom'') None None
              (Some [Variable (Some ''message'') (Some ''boom'') None None None None]) None]"
          "Variable None (Some ''Error: boom'') None None
              (Some [Variable (Some ''message'') (Some ''boom'') None None None None]) None"
          "''Error: boom''" exampleHost]
  by (simp add: exampleAdapter_def exampleProxy_def exampleSnapshot_def
      errorWithoutMembersSnapshot_def errorSnapshot_def startsWith_def truthy_def)

section \<open>logVariableStatus: theorems\<close>

text \<open>
  The claim C2 as it is written fails: for an entry of the variable table without a
  value whose status is not an error, \<open>logVariableStatus\<close> throws, and so does
  \<open>loadSnapshot\<close>.
\<close>

theorem logVariableStatus_throws_counterexample:
  "logVariableStatus (Some (exampleAdapter informationStatusSnapshot)) informationStatus =
     Inl UnexpectedStatusFormat \<and>
   fst (loadSnapshot exampleHost (exampleAdapter informationStatusSnapshot) ''snap'') =
     Inl UnexpectedStatusFormat"
  by (simp add: logVariableStatus_def informationStatus_def loadSnapshot_def
      informationStatusSnapshot_def exampleAdapter_def exampleProxy_def exampleSnapshot_def
      firstPassEntry_def truthy_def truthyNumber_def Let_def)

text \<open>
  C2, amended. Called on the adapter, \<open>logVariableStatus\<close> writes one message to the
  logger and changes nothing else: at level \<open>silly\<close> for an entry without status whose
  name is in \<open>STATUS_MESSAGE_SET\<close>, at level \<open>info\<close> for any other entry without status,
  and at level \<open>silly\<close> for an entry whose status is that of an error in the value of the
  variable (no index, \<open>isError\<close>, \<open>refersTo\<close> the value, a description with a format). For
  an entry with a status of any other shape it throws.
\<close>

theorem logVariableStatus_on_adapter:
  "(v_status variable = None \<and> truthy (v_name variable) \<and>
      the (v_name variable) \<in> STATUS_MESSAGE_SET \<longrightarrow>
      logVariableStatus (Some a) variable =
        Inr (a\<lparr>logger := logger a @ [(Silly, ''adapter-parse'', StatusMessage variable)]\<rparr>)) \<and>
   (v_status variable = None \<and>
      \<not> (truthy (v_name variable) \<and> the (v_name variable) \<in> STATUS_MESSAGE_SET) \<longrightarrow>
      logVariableStatus (Some a) variable =
        Inr (a\<lparr>logger := logger a @ [(Info, ''adapter-parse'', StatusMessage variable)]\<rparr>)) \<and>
   (v_status variable = Some status \<and> \<not> truthyNumber (v_varTableIndex variable) \<and>
      st_isError status = Some True \<and> st_refersTo status = Some ''VARIABLE_VALUE'' \<and>
      st_description status = Some description \<and> fm_format description = Some format \<and>
      format \<noteq> [] \<longrightarrow>
      logVariableStatus (Some a) variable =
        Inr (a\<lparr>logger := logger a @
               [(Silly, ''adapter-parse'', ErrorInVariable (v_name variable) format)]\<rparr>)) \<and>
   (v_status variable = Some status \<and>
      (truthyNumber (v_varTableIndex variable) \<or> st_isError status \<noteq> Some True \<or>
       st_refersTo status \<noteq> Some ''VARIABLE_VALUE'' \<or> st_description status = None \<or>
       \<not> truthy (fm_format (the (st_description status)))) \<longrightarrow>
      logVariableStatus (Some a) variable = Inl UnexpectedStatusFormat)"
  by (auto simp: logVariableStatus_def writeLog_def truthy_def split: option.splits)

theorem logVariableStatus_on_adapter_witness:
  "logVariableStatus (Some (exampleAdapter emptyObjectSnapshot))
     (Variable (Some ''_url'') None None None None None) =
     Inr ((exampleAdapter emptyObjectSnapshot)
            \<lparr>logger := [(Silly, ''adapter-parse'',
                         StatusMessage (Variable (Some ''_url'') None None None None None))]\<rparr>) \<and>
   logVariableStatus (Some (exampleAdapter emptyObjectSnapshot))
     (Variable (Some ''size'') None None None None None) =
     Inr ((exampleAdapter emptyObjectSnapshot)
            \<lparr>logger := [(Info, ''adapter-parse'',
                         StatusMessage (Variable (Some ''size'') None None None None None))]\<rparr>) \<and>
   logVariableStatus (Some (exampleAdapter emptyObjectSnapshot)) errorStatus =
     Inr ((exampleAdapter emptyObjectSnapshot)
            \<lparr>logger := [(Silly, ''adapter-parse'',
                         ErrorInVariable None ''Max data size reached'')]\<rparr>) \<and>
   logVariableStatus (Some (exampleAdapter emptyObjectSnapshot)) informationStatus =
     Inl UnexpectedStatusFormat"
  using logVariableStatus_on_adapter
      [of "Variable (Some ''_url'') None None None None None" "exampleAdapter emptyObjectSnapshot"]
    logVariableStatus_on_adapter
      [of "Variable (Some ''size'') None None None None None" "exampleAdapter emptyObjectSnapshot"]
    logVariableStatus_on_adapter
      [where variable = errorStatus and a = "exampleAdapter emptyObjectSnapshot"
         and status = "\<lparr>st_isError = Some True, st_refersTo = Some ''VARIABLE_VALUE'',
              st_description = Some \<lparr>fm_format = Some ''Max data size reached''\<rparr>\<rparr>"
         and description = "\<lparr>fm_format = Some ''Max data size reached''\<rparr>"
         and format = "''Max data size reached''"]
    logVariableStatus_on_adapter
      [where variable = informationStatus and a = "exampleAdapter emptyObjectSnapshot"
         and status = "\<lparr>st_isError = Some False, st_refersTo = Some ''VARIABLE_VALUE'',
              st_description = Some \<lparr>fm_format = Some ''Only first 10 properties were captured''\<rparr>\<rparr>"]
  by (simp add: errorStatus_def informationStatus_def truthy_def truthyNumber_def
      STATUS_MESSAGE_SET_def exampleAdapter_def)

text \<open>
  C9. A child entry whose \<open>varTableIndex\<close> is 0 and that has no value is not resolved
  to the descriptor of index 0; \<open>parseVariable\<close> passes it to \<open>logVariableStatus\<close>. The
  call has no \<open>this\<close>, so it throws where the logger is read: \<open>parseVariable\<close> does not
  return \<open>null\<close>, and \<open>loadSnapshot\<close> fails.
\<close>

theorem parseVariable_index_zero_throws:
  "parseVariable h m (Variable (Some ''self'') None None (Some 0) None None) =
     Inl (TypeError ''logger'') \<and>
   fst (loadSnapshot exampleHost (exampleAdapter selfReferenceSnapshot) ''snap'') =
     Inl (TypeError ''logger'')"
proof
  show "parseVariable h m (Variable (Some ''self'') None None (Some 0) None None) =
     Inl (TypeError ''logger'')"
    by (simp add: parseVariable_def truthy_def truthyNumber_def logVariableStatus_def
        writeLog_def STATUS_MESSAGE_SET_def)
  show "fst (loadSnapshot exampleHost (exampleAdapter selfReferenceSnapshot) ''snap'') =
     Inl (TypeError ''logger'')"
    by code_simp
qed

section \<open>Snapshot translation: what the passes store\<close>

text \<open>
  The identifiers of one snapshot are distinct for distinct indices and distinct roles.
  So a pass leaves every key alone but the ones of its role from its current index on,
  and what an entry or a frame has stored is still there when the call returns.
\<close>

subsection \<open>Identifiers\<close>

lemma digit_value_digit: "d < 10 \<Longrightarrow> digit_value (digit d) = d"
  unfolding digit_def digit_value_def
  by (cases d rule: nat.exhaust; simp add: nth_Cons' less_Suc_eq numeral_eq_Suc; fastforce?)

lemma nat_of_string_of_nat: "nat_of_string (string_of_nat n) = n"
proof (induction n rule: string_of_nat.induct)
  case (1 n)
  show ?case
  proof (cases "n < 10")
    case True
    then show ?thesis
      by (subst string_of_nat.simps) (simp add: nat_of_string_def digit_value_digit)
  next
    case False
    with 1 show ?thesis
      by (subst string_of_nat.simps) (simp add: nat_of_string_def digit_value_digit)
  qed
qed

lemma string_of_nat_inject: "string_of_nat i = string_of_nat j \<longleftrightarrow> i = j"
  by (metis nat_of_string_of_nat)

lemma getObjectId_inject: "getObjectId sid i = getObjectId sid j \<longleftrightarrow> i = j"
  by (simp add: getObjectId_def string_of_nat_inject)


lemma identifiers_distinct:
  "getObjectId sid i \<noteq> emptyObjectId sid j"
  "getObjectId sid i \<noteq> scopeId sid j"
  "emptyObjectId sid i \<noteq> scopeId sid j"
  by (simp_all add: getObjectId_def emptyObjectId_def scopeId_def)

subsection \<open>The first pass\<close>

lemma firstPassEntry_other:
  "firstPassEntry h sid variable i m a = (Inr m', a') \<Longrightarrow> j \<noteq> i \<Longrightarrow> m' j = m j"
  by (auto simp: firstPassEntry_def Let_def split: if_splits sum.splits prod.splits)

lemma firstPass_below:
  "firstPass h sid table i m a = (Inr m', a') \<Longrightarrow> j < i \<Longrightarrow> m' j = m j"
proof (induction table arbitrary: i m a)
  case Nil
  then show ?case by simp
next
  case (Cons variable rest)
  from Cons.prems(1) obtain m1 a1 where
    entry: "firstPassEntry h sid variable i m a = (Inr m1, a1)" and
    rest: "firstPass h sid rest (Suc i) m1 a1 = (Inr m', a')"
    by (auto split: prod.splits sum.splits)
  from Cons.IH [OF rest] Cons.prems(2) have "m' j = m1 j" by simp
  with firstPassEntry_other [OF entry, of j] Cons.prems(2) show ?case by simp
qed

lemma firstPassEntry_descriptor:
  assumes "firstPassEntry h sid variable i m a = (Inr m', a')"
    and "truthy (v_value variable)"
  shows "\<exists>d. m' i = Some d \<and>
           ro_objectId d =
             (if v_members variable \<noteq> None then Some (getObjectId sid i)
              else if ro_className d = Some ''Object'' then Some (emptyObjectId sid i)
              else None)"
  using assms
  by (auto simp: firstPassEntry_def Let_def split: if_splits sum.splits prod.splits)

lemma firstPass_descriptor:
  assumes "firstPass h sid table i m a = (Inr m', a')"
    and "k < length table" and "truthy (v_value (table ! k))"
  shows "\<exists>d. m' (i + k) = Some d \<and>
           ro_objectId d =
             (if v_members (table ! k) \<noteq> None then Some (getObjectId sid (i + k))
              else if ro_className d = Some ''Object'' then Some (emptyObjectId sid (i + k))
              else None)"
  using assms
proof (induction table arbitrary: i m a k)
  case Nil
  then show ?case by simp
next
  case (Cons variable rest)
  from Cons.prems(1) obtain m1 a1 where
    entry: "firstPassEntry h sid variable i m a = (Inr m1, a1)" and
    rest: "firstPass h sid rest (Suc i) m1 a1 = (Inr m', a')"
    by (auto split: prod.splits sum.splits)
  show ?case
  proof (cases k)
    case 0
    with Cons.prems(3) have "truthy (v_value variable)" by simp
    from firstPassEntry_descriptor [OF entry this] obtain d where
      "m1 i = Some d"
      "ro_objectId d =
         (if v_members variable \<noteq> None then Some (getObjectId sid i)
          else if ro_className d = Some ''Object'' then Some (emptyObjectId sid i)
          else None)"
      by blast
    with firstPass_below [OF rest, of i] 0 show ?thesis by simp
  next
    case (Suc k')
    with Cons.prems have "k' < length rest" "truthy (v_value (rest ! k'))" by simp_all
    from Cons.IH [OF rest this] Suc show ?thesis
      by (simp split del: if_split cong del: if_weak_cong)
  qed
qed

subsection \<open>The second pass\<close>

lemma secondPassEntry_other:
  "secondPassEntry h sid m variable i a = (r, a') \<Longrightarrow> key \<noteq> getObjectId sid i \<Longrightarrow>
   propertyDescriptorListMap a' key = propertyDescriptorListMap a key"
  by (auto simp: secondPassEntry_def split: if_splits sum.splits)

lemma secondPass_other:
  "secondPass h sid m table i a = (r, a') \<Longrightarrow> \<forall>j\<ge>i. key \<noteq> getObjectId sid j \<Longrightarrow>
   propertyDescriptorListMap a' key = propertyDescriptorListMap a key"
proof (induction table arbitrary: i a)
  case Nil
  then show ?case by simp
next
  case (Cons variable rest)
  obtain r1 a1 where entry: "secondPassEntry h sid m variable i a = (r1, a1)"
    by (cases "secondPassEntry h sid m variable i a")
  from secondPassEntry_other [OF entry, of key] Cons.prems(2)
  have 1: "propertyDescriptorListMap a1 key = propertyDescriptorListMap a key" by simp
  show ?case
  proof (cases r1)
    case (Inl e)
    with entry Cons.prems(1) 1 show ?thesis by simp
  next
    case (Inr u)
    with entry Cons.prems(1) have "secondPass h sid m rest (Suc i) a1 = (r, a')" by simp
    from Cons.IH [OF this] Cons.prems(2) 1 show ?thesis by simp
  qed
qed

lemma secondPassEntry_stores:
  "secondPassEntry h sid m variable i a = (Inr u, a') \<Longrightarrow> truthy (v_value variable) \<Longrightarrow>
   \<exists>l. propertyDescriptorList h m variable i = Inr l \<and>
       propertyDescriptorListMap a' (getObjectId sid i) = Some l"
  by (auto simp: secondPassEntry_def split: if_splits sum.splits)

lemma secondPass_stores:
  assumes "secondPass h sid m table i a = (Inr u, a')"
    and "k < length table" and "truthy (v_value (table ! k))"
  shows "\<exists>l. propertyDescriptorList h m (table ! k) (i + k) = Inr l \<and>
             propertyDescriptorListMap a' (getObjectId sid (i + k)) = Some l"
  using assms
proof (induction table arbitrary: i a k)
  case Nil
  then show ?case by simp
next
  case (Cons variable rest)
  from Cons.prems(1) obtain u1 a1 where
    entry: "secondPassEntry h sid m variable i a = (Inr u1, a1)" and
    rest: "secondPass h sid m rest (Suc i) a1 = (Inr u, a')"
    by (auto split: prod.splits sum.splits)
  show ?case
  proof (cases k)
    case 0
    with Cons.prems(3) have "truthy (v_value variable)" by simp
    from secondPassEntry_stores [OF entry this]
      secondPass_other [OF rest, of "getObjectId sid i"] 0
    show ?thesis by (simp add: getObjectId_inject)
  next
    case (Suc k')
    with Cons.prems have "k' < length rest" "truthy (v_value (rest ! k'))" by simp_all
    from Cons.IH [OF rest this] Suc show ?thesis by simp
  qed
qed

subsection \<open>The frames\<close>

lemma toCallFrame_other:
  "toCallFrame h sid m stackFrame i a = (r, a') \<Longrightarrow> key \<noteq> scopeId sid i \<Longrightarrow>
   propertyDescriptorListMap a' key = propertyDescriptorListMap a key"
  by (auto simp: toCallFrame_def Let_def split: if_splits sum.splits)

lemma toCallFrames_other:
  "toCallFrames h sid m frames i a = (r, a') \<Longrightarrow> \<forall>j\<ge>i. key \<noteq> scopeId sid j \<Longrightarrow>
   propertyDescriptorListMap a' key = propertyDescriptorListMap a key"
proof (induction frames arbitrary: i a r a')
  case Nil
  then show ?case by simp
next
  case (Cons stackFrame rest)
  obtain r1 a1 where frame: "toCallFrame h sid m stackFrame i a = (r1, a1)"
    by (cases "toCallFrame h sid m stackFrame i a")
  from toCallFrame_other [OF frame, of key] Cons.prems(2)
  have 1: "propertyDescriptorListMap a1 key = propertyDescriptorListMap a key" by simp
  show ?case
  proof (cases r1)
    case (Inl e)
    with frame Cons.prems(1) 1 show ?thesis by simp
  next
    case (Inr cf)
    obtain r2 a2 where rest: "toCallFrames h sid m rest (Suc i) a1 = (r2, a2)"
      by (cases "toCallFrames h sid m rest (Suc i) a1")
    with frame Inr Cons.prems(1) have "a' = a2" by (auto split: sum.splits)
    with Cons.IH [OF rest] Cons.prems(2) 1 show ?thesis by simp
  qed
qed



section \<open>Snapshot translation: theorems\<close>

lemma loadSnapshot_passes:
  assumes "getBreakpoint (debugProxy a) snapshotId = Inr snapshot"
    and "fst (loadSnapshot h a snapshotId) = Inr event"
  shows "\<exists>a1 u a2.
           firstPass h (bp_id snapshot)
             (case bp_variableTable snapshot of None \<Rightarrow> [] | Some vs \<Rightarrow> vs) 0 Map.empty a =
             (Inr (varTableIndexToRemoteObjectMap h a snapshot), a1) \<and>
           secondPass h (bp_id snapshot) (varTableIndexToRemoteObjectMap h a snapshot)
             (case bp_variableTable snapshot of None \<Rightarrow> [] | Some vs \<Rightarrow> vs) 0 a1 =
             (Inr u, a2) \<and>
           toCallFrames h (bp_id snapshot) (varTableIndexToRemoteObjectMap h a snapshot)
             (case bp_stackFrames snapshot of None \<Rightarrow> [] | Some fs \<Rightarrow> fs) 0 a2 =
             (Inr (callFrames event), snd (loadSnapshot h a snapshotId))"
  using assms
  by (auto simp: loadSnapshot_def Let_def varTableIndexToRemoteObjectMap_def
      split: if_splits sum.splits prod.splits)

text \<open>
  Whatever it is given, \<open>parseVariable\<close> does not return \<open>null\<close>: where it would, the
  call of \<open>logVariableStatus\<close> before it throws.
\<close>

lemma parseVariable_not_null: "parseVariable h m variable \<noteq> Inr None"
  using logVariableStatus_no_receiver [of variable]
  by (auto simp: parseVariable_def split: sum.splits)

text \<open>
  C1, amended. When \<open>loadSnapshot\<close> returns, then for every entry of the variable table
  that has a value, the property descriptor list that the second pass computes for it is
  stored under the identifier \<open>getObjectId\<close> of its index (the snapshot identifier,
  \<open>-object-\<close> and the index). That is the identifier the first pass gave the entry when
  the entry has members. For an entry without members the list is the single property
  named after the value that points at the descriptor of the first pass, and the
  identifier of that descriptor is another one: the \<open>-empty-\<close> identifier when the
  class name is \<open>Object\<close>, and none otherwise.
\<close>

theorem second_pass_stores_under_object_identifier:
  assumes "getBreakpoint (debugProxy a) snapshotId = Inr snapshot"
    and "fst (loadSnapshot h a snapshotId) = Inr event"
    and "bp_variableTable snapshot = Some table"
    and "k < length table" and "truthy (v_value (table ! k))"
  shows "\<exists>descriptor properties.
           varTableIndexToRemoteObjectMap h a snapshot k = Some descriptor \<and>
           propertyDescriptorList h (varTableIndexToRemoteObjectMap h a snapshot) (table ! k) k =
             Inr properties \<and>
           propertyDescriptorListMap (snd (loadSnapshot h a snapshotId))
             (getObjectId (bp_id snapshot) k) = Some properties \<and>
           (v_members (table ! k) \<noteq> None \<longrightarrow>
              ro_objectId descriptor = Some (getObjectId (bp_id snapshot) k)) \<and>
           (v_members (table ! k) = None \<longrightarrow>
              properties =
                [\<lparr>pd_name = the (v_value (table ! k)), pd_value = Some descriptor,
                  pd_configurable = False, pd_enumerable = True\<rparr>] \<and>
              ro_objectId descriptor =
                (if ro_className descriptor = Some ''Object''
                 then Some (emptyObjectId (bp_id snapshot) k) else None) \<and>
              ro_objectId descriptor \<noteq> Some (getObjectId (bp_id snapshot) k))"
proof -
  let ?m = "varTableIndexToRemoteObjectMap h a snapshot"
  let ?sid = "bp_id snapshot"
  from loadSnapshot_passes [OF assms(1,2)] assms(3) obtain a1 u a2 where
    first: "firstPass h ?sid table 0 Map.empty a = (Inr ?m, a1)" and
    second: "secondPass h ?sid ?m table 0 a1 = (Inr u, a2)" and
    frames: "toCallFrames h ?sid ?m
               (case bp_stackFrames snapshot of None \<Rightarrow> [] | Some fs \<Rightarrow> fs) 0 a2 =
             (Inr (callFrames event), snd (loadSnapshot h a snapshotId))"
    by auto
  from firstPass_descriptor [OF first assms(4,5)] obtain descriptor where
    d: "?m k = Some descriptor" and
    oid: "ro_objectId descriptor =
            (if v_members (table ! k) \<noteq> None then Some (getObjectId ?sid k)
             else if ro_className descriptor = Some ''Object'' then Some (emptyObjectId ?sid k)
             else None)"
    by auto
  from secondPass_stores [OF second assms(4,5)] obtain properties where
    l: "propertyDescriptorList h ?m (table ! k) k = Inr properties" and
    stored: "propertyDescriptorListMap a2 (getObjectId ?sid k) = Some properties"
    by auto
  from toCallFrames_other [OF frames, of "getObjectId ?sid k"] stored
  have final: "propertyDescriptorListMap (snd (loadSnapshot h a snapshotId))
                 (getObjectId ?sid k) = Some properties"
    by (simp add: identifiers_distinct)
  have "v_members (table ! k) = None \<Longrightarrow>
          properties =
            [\<lparr>pd_name = the (v_value (table ! k)), pd_value = Some descriptor,
              pd_configurable = False, pd_enumerable = True\<rparr>]"
    using l d by (simp add: propertyDescriptorList_def)
  moreover have "v_members (table ! k) = None \<Longrightarrow>
          ro_objectId descriptor \<noteq> Some (getObjectId ?sid k)"
    using oid identifiers_distinct(1) [of ?sid k k] by (auto split: if_splits)
  ultimately show ?thesis using d l final oid by auto
qed



theorem second_pass_stores_under_object_identifier_witness:
  "propertyDescriptorListMap
     (snd (loadSnapshot exampleHost (exampleAdapter contextSnapshot) ''snap'')) ''snap-object-1'' =
     Some [\<lparr>pd_name = ''a'',
            pd_value =
              Some ((remoteObjectOfType ''number'')
                      \<lparr>ro_description := Some ''1'', ro_value := Some (JSNumber ''1'')\<rparr>),
            pd_configurable = False, pd_enumerable = True\<rparr>] \<and>
   Option.bind
     (varTableIndexToRemoteObjectMap exampleHost (exampleAdapter contextSnapshot) contextSnapshot 1)
     ro_objectId = Some ''snap-object-1''"
proof -
  let ?a = "exampleAdapter contextSnapshot"
  have 1: "getBreakpoint (debugProxy ?a) ''snap'' = Inr contextSnapshot"
    by (simp add: exampleAdapter_def exampleProxy_def contextSnapshot_def exampleSnapshot_def)
  have "\<not> isl (fst (loadSnapshot exampleHost ?a ''snap''))"
    by code_simp
  then have 2: "fst (loadSnapshot exampleHost ?a ''snap'') =
                  Inr (projr (fst (loadSnapshot exampleHost ?a ''snap'')))"
    by simp
  have 3: "bp_variableTable contextSnapshot = Some contextTable"
    by (simp add: contextSnapshot_def exampleSnapshot_def)
  have 4: "1 < length contextTable"
    by (simp add: contextTable_def)
  have 5: "truthy (v_value (contextTable ! 1))"
    by (simp add: contextTable_def truthy_def)
  have 6: "propertyDescriptorList exampleHost
             (varTableIndexToRemoteObjectMap exampleHost ?a contextSnapshot) (contextTable ! 1) 1 =
           Inr [\<lparr>pd_name = ''a'',
                  pd_value =
                    Some ((remoteObjectOfType ''number'')
                            \<lparr>ro_description := Some ''1'', ro_value := Some (JSNumber ''1'')\<rparr>),
                  pd_configurable = False, pd_enumerable = True\<rparr>]"
    by code_simp
  have 7: "getObjectId (bp_id contextSnapshot) 1 = ''snap-object-1''"
    by code_simp
  have 8: "v_members (contextTable ! 1) \<noteq> None"
    by (simp add: contextTable_def)
  from second_pass_stores_under_object_identifier [OF 1 2 3 4 5] 6 7 8
  show ?thesis by auto
qed

text \<open>
  The claim C1 as it is written fails on an object without members: the identifier the
  first pass gives it is \<open>snap-empty-0\<close>, under which the map holds the empty list; the
  single property of the second pass is stored under \<open>snap-object-0\<close>.
\<close>

theorem object_without_members_counterexample:
  "Option.bind
     (varTableIndexToRemoteObjectMap exampleHost (exampleAdapter emptyObjectSnapshot)
        emptyObjectSnapshot 0)
     ro_objectId = Some ''snap-empty-0'' \<and>
   propertyDescriptorListMap
     (snd (loadSnapshot exampleHost (exampleAdapter emptyObjectSnapshot) ''snap'')) ''snap-empty-0'' =
     Some [] \<and>
   propertyDescriptorListMap
     (snd (loadSnapshot exampleHost (exampleAdapter emptyObjectSnapshot) ''snap'')) ''snap-object-0'' =
     Some [\<lparr>pd_name = ''#<Object>'',
            pd_value =
              varTableIndexToRemoteObjectMap exampleHost (exampleAdapter emptyObjectSnapshot)
                emptyObjectSnapshot 0,
            pd_configurable = False, pd_enumerable = True\<rparr>]"
  by code_simp



end
